theory Spec2Isabelle
  imports Complex_Main
begin

section \<open>Values of the runtime\<close>

text \<open>
  The application (\<open>App.tsx\<close>) keeps three items in the browser's \<open>localStorage\<close>:
  \<open>darkMode\<close> and \<open>dailyCalorieGoal\<close>, read as plain text, and \<open>calorieLog\<close>, read through
  \<open>JSON.parse\<close>. Numbers are modelled as mathematical integers (a JavaScript number is exact
  on integers below \<open>2^53\<close>); calorie amounts with a fractional part are outside the model.
\<close>

datatype json =
    JNull
  | JBool bool
  | JNum int
  | JStr string
  | JArr "json list"
  | JObj "(string \<times> json) list"

text \<open>A JavaScript value as far as the ledger sees one: \<open>undefined\<close>, or a value that
  \<open>JSON.parse\<close> can return.\<close>

datatype jsval = Undefined | Val json

datatype exn = SyntaxError | TypeError

text \<open>
  The text stored under \<open>calorieLog\<close> is represented by what \<open>JSON.parse\<close> makes of it:
  \<open>NotJSON\<close> is any text on which \<open>JSON.parse\<close> throws (the empty text included), and
  \<open>Json v\<close> is a text that parses to the value \<open>v\<close> (object members by name, as the parsed
  object has them). \<open>JSON.stringify\<close> of a value is the text that parses back to it.
\<close>

datatype item = NotJSON | Json json

definition JSON_parse :: "item \<Rightarrow> exn + json" where
  "JSON_parse t = (case t of NotJSON \<Rightarrow> Inl SyntaxError | Json v \<Rightarrow> Inr v)"

definition JSON_stringify :: "json \<Rightarrow> item" where
  "JSON_stringify v = Json v"

text \<open>Property access \<open>v.name\<close> on a parsed value other than \<open>null\<close>: only an object has
  members of its own named \<open>date\<close> or \<open>calories\<close>.\<close>

fun getProp :: "json \<Rightarrow> string \<Rightarrow> jsval" where
  "getProp (JObj kvs) k = (case map_of kvs k of None \<Rightarrow> Undefined | Some v \<Rightarrow> Val v)"
| "getProp _ k = Undefined"

text \<open>The destructuring \<open>const { date, calories } = v\<close>: a \<open>TypeError\<close> on \<open>null\<close>.\<close>

definition destructure :: "json \<Rightarrow> exn + (jsval \<times> jsval)" where
  "destructure v =
     (case v of
        JNull \<Rightarrow> Inl TypeError
      | _ \<Rightarrow> Inr (getProp v ''date'', getProp v ''calories''))"

text \<open>\<open>String(b)\<close> for a boolean.\<close>

definition String_of_bool :: "bool \<Rightarrow> string" where
  "String_of_bool b = (if b then ''true'' else ''false'')"

subsection \<open>parseInt\<close>

text \<open>
  The goal text is read by \<open>parseInt\<close>, which looks at its code units, so it is kept as the
  list of its UTF-16 code units; \<open>str\<close> gives the code units of an ASCII literal. (The other
  texts of the program are only compared with each other and stay \<open>string\<close>s.)

  \<open>parseInt(s)\<close> without a radix: leading white space is dropped, then an optional sign, then
  an optional \<open>0x\<close>/\<open>0X\<close> (which selects base 16), then the longest prefix of digits of the
  base; no digit gives \<open>NaN\<close>, here \<open>None\<close>. White space is the white space and the line
  terminators of the language: the codes 9 to 13, the space, the no-break space (160), the
  byte order mark (65279), the line and paragraph separators (8232, 8233) and the other
  space separators of Unicode.
\<close>

type_synonym codeUnits = "nat list"

definition str :: "string \<Rightarrow> codeUnits" where
  "str s = map of_char s"

definition isWhiteSpace :: "nat \<Rightarrow> bool" where
  "isWhiteSpace c =
     ((9 \<le> c \<and> c \<le> 13) \<or> c = 32 \<or> c = 160 \<or> c = 5760 \<or> (8192 \<le> c \<and> c \<le> 8202)
      \<or> c = 8232 \<or> c = 8233 \<or> c = 8239 \<or> c = 8287 \<or> c = 12288 \<or> c = 65279)"

definition digitValue :: "nat \<Rightarrow> nat option" where
  "digitValue n =
     (if 48 \<le> n \<and> n \<le> 57 then Some (n - 48)
      else if 97 \<le> n \<and> n \<le> 102 then Some (n - 87)
      else if 65 \<le> n \<and> n \<le> 70 then Some (n - 55)
      else None)"

fun digitsPrefix :: "nat \<Rightarrow> codeUnits \<Rightarrow> nat list" where
  "digitsPrefix radix [] = []"
| "digitsPrefix radix (c # cs) =
     (case digitValue c of
        None \<Rightarrow> []
      | Some d \<Rightarrow> if d < radix then d # digitsPrefix radix cs else [])"

definition digitsValue :: "nat \<Rightarrow> nat list \<Rightarrow> nat" where
  "digitsValue radix ds = foldl (\<lambda>acc d. acc * radix + d) 0 ds"

definition parseInt :: "codeUnits \<Rightarrow> int option" where
  "parseInt s =
     (let s1 = dropWhile isWhiteSpace s;
          (sign, s2) = (case s1 of
                          c # cs \<Rightarrow> if c = of_char CHR ''-'' then (- 1, cs)
                                    else if c = of_char CHR ''+'' then (1, cs)
                                    else (1, s1)
                        | [] \<Rightarrow> (1, s1));
          (radix, s3) = (case s2 of
                           a # b # cs \<Rightarrow> if a = of_char CHR ''0''
                                            \<and> (b = of_char CHR ''x'' \<or> b = of_char CHR ''X'')
                                         then (16, cs) else (10, s2)
                         | _ \<Rightarrow> (10, s2));
          ds = digitsPrefix radix s3
      in if ds = [] then None else Some (sign * int (digitsValue radix ds)))"

section \<open>The daily calorie ledger\<close>

record storage =
  ls_calorieLog :: "item option"
  ls_dailyCalorieGoal :: "codeUnits option"
  ls_darkMode :: "string option"

text \<open>
  The body of the \<open>try\<close> block of \<open>loadConsumedCalories\<close>: \<open>Inl e\<close> when it throws,
  \<open>Inr (Some v)\<close> when it returns \<open>v\<close>, \<open>Inr None\<close> when it falls through. \<open>today\<close> is
  what \<open>getTodayKey()\<close> gives at the time of the call.
\<close>

definition loadConsumedCalories_try :: "storage \<Rightarrow> string \<Rightarrow> exn + jsval option" where
  "loadConsumedCalories_try st today =
     (case ls_calorieLog st of
        None \<Rightarrow> Inr None
      | Some stored \<Rightarrow>
          (case JSON_parse stored of
             Inl e \<Rightarrow> Inl e
           | Inr v \<Rightarrow>
               (case destructure v of
                  Inl e \<Rightarrow> Inl e
                | Inr (date, calories) \<Rightarrow>
                    if date = Val (JStr today) then Inr (Some calories) else Inr None)))"

definition loadConsumedCalories :: "storage \<Rightarrow> string \<Rightarrow> jsval" where
  "loadConsumedCalories st today =
     (case loadConsumedCalories_try st today of
        Inr (Some v) \<Rightarrow> v
      | _ \<Rightarrow> Val (JNum 0))"

text \<open>The initial values of the goal text and of the dark-mode flag, and the goal derived
  from the text on every render: \<open>parseInt(dailyCalorieGoalStr) || 0\<close>.\<close>

definition initialGoalStr :: "storage \<Rightarrow> codeUnits" where
  "initialGoalStr st =
     (case ls_dailyCalorieGoal st of
        None \<Rightarrow> str ''2000''
      | Some t \<Rightarrow> if t = [] then str ''2000'' else t)"

definition initialDarkMode :: "storage \<Rightarrow> bool" where
  "initialDarkMode st = (ls_darkMode st = Some ''true'')"

definition goalOfStr :: "codeUnits \<Rightarrow> int" where
  "goalOfStr t = (case parseInt t of None \<Rightarrow> 0 | Some n \<Rightarrow> n)"

section \<open>The application state\<close>

datatype tab = calorie | workout | journey

text \<open>Of an analysis result (\<open>NutritionAnalysis\<close>) the application's own logic reads only
  \<open>totalCalories\<close>; the item list, the summary and the advice are only displayed.\<close>

record NutritionAnalysis =
  totalCalories :: int
  summary :: string

datatype readyState = live | ended

text \<open>
  The camera: every track that \<open>getUserMedia\<close> has handed out is an entry of \<open>tracks\<close>, and
  a \<open>MediaStream\<close> is the list of the indices of its tracks, so that stopping a track through
  the stream is seen by whoever looks at the device afterwards.
\<close>

type_synonym MediaStream = "nat list"

text \<open>
  The React state of \<open>App\<close> (the fields the ledger and the capture pipeline use), the two
  refs, and the environment: \<open>localStorage\<close>, the tracks, and the calendar day \<open>today\<close> that
  \<open>getTodayKey()\<close> returns. \<open>videoRef\<close> is \<open>None\<close> while no \<open>video\<close> element is rendered,
  \<open>Some None\<close> for an element without a stream and \<open>Some (Some ms)\<close> for an element whose
  \<open>srcObject\<close> is \<open>ms\<close>. The \<open>canvas\<close> element is rendered unconditionally, so
  \<open>canvasRef.current\<close> is always there; only its size is kept.
\<close>

record app =
  activeTab :: tab
  image_data :: "string option"
  isAnalyzing :: bool
  analysis :: "NutritionAnalysis option"
  error :: "string option"
  cameraActive :: bool
  mealLogged :: bool
  dailyCalorieGoalStr :: codeUnits
  consumedCalories :: int
  darkMode :: bool
  videoRef :: "MediaStream option option"
  canvasWidth :: nat
  canvasHeight :: nat
  localStorage :: storage
  tracks :: "readyState list"
  today :: string

definition dailyCalorieGoal :: "app \<Rightarrow> int" where
  "dailyCalorieGoal s = goalOfStr (dailyCalorieGoalStr s)"

definition remainingCalories :: "app \<Rightarrow> int" where
  "remainingCalories s = dailyCalorieGoal s - consumedCalories s"

definition isOverGoal :: "app \<Rightarrow> bool" where
  "isOverGoal s = (consumedCalories s > dailyCalorieGoal s)"

subsection \<open>The progress bar\<close>

text \<open>
  \<open>Math.min((consumedCalories / dailyCalorieGoal) * 100, 100)\<close> is computed on doubles.
  \<open>rnd\<close> is the rounding of an exact result to a double; division by zero gives an infinity
  or \<open>NaN\<close> as the language has it, and \<open>Math.min\<close> returns \<open>NaN\<close> when an argument is.
\<close>

datatype number = Finite real | PosInfinity | NegInfinity | NaN

definition js_divide :: "(real \<Rightarrow> real) \<Rightarrow> int \<Rightarrow> int \<Rightarrow> number" where
  "js_divide rnd a b =
     (if b = 0 then (if a = 0 then NaN else if a > 0 then PosInfinity else NegInfinity)
      else Finite (rnd (real_of_int a / real_of_int b)))"

fun js_times :: "(real \<Rightarrow> real) \<Rightarrow> number \<Rightarrow> real \<Rightarrow> number" where
  "js_times rnd (Finite x) k = Finite (rnd (x * k))"
| "js_times rnd PosInfinity k = (if k = 0 then NaN else if k > 0 then PosInfinity else NegInfinity)"
| "js_times rnd NegInfinity k = (if k = 0 then NaN else if k > 0 then NegInfinity else PosInfinity)"
| "js_times rnd NaN k = NaN"

fun Math_min :: "number \<Rightarrow> real \<Rightarrow> number" where
  "Math_min (Finite x) k = Finite (min x k)"
| "Math_min PosInfinity k = Finite k"
| "Math_min NegInfinity k = NegInfinity"
| "Math_min NaN k = NaN"

text \<open>The comparison \<open>x > k\<close> of the language: false when \<open>x\<close> is \<open>NaN\<close>.\<close>

fun js_greater :: "number \<Rightarrow> real \<Rightarrow> bool" where
  "js_greater (Finite x) k = (x > k)"
| "js_greater PosInfinity k = True"
| "js_greater NegInfinity k = False"
| "js_greater NaN k = False"

definition progressPercent :: "(real \<Rightarrow> real) \<Rightarrow> app \<Rightarrow> number" where
  "progressPercent rnd s =
     Math_min (js_times rnd (js_divide rnd (consumedCalories s) (dailyCalorieGoal s)) 100) 100"

subsection \<open>Rendering and effects\<close>

text \<open>The three screens of the calorie tab: the start screen (\<open>!image && !cameraActive\<close>),
  otherwise the camera view (\<open>cameraActive\<close>), otherwise the preview. The \<open>video\<close> element
  is rendered in the camera view only.\<close>

definition noImage :: "app \<Rightarrow> bool" where
  \<comment> \<open>\<open>!image\<close>: \<open>null\<close> and the empty string are falsy\<close>
  "noImage s = (image_data s = None \<or> image_data s = Some [])"

definition startView :: "app \<Rightarrow> bool" where
  "startView s = (activeTab s = calorie \<and> noImage s \<and> \<not> cameraActive s)"

definition cameraView :: "app \<Rightarrow> bool" where
  "cameraView s =
     (activeTab s = calorie \<and> \<not> (noImage s \<and> \<not> cameraActive s) \<and> cameraActive s)"

definition previewView :: "app \<Rightarrow> bool" where
  "previewView s =
     (activeTab s = calorie \<and> \<not> (noImage s \<and> \<not> cameraActive s) \<and> \<not> cameraActive s)"

text \<open>After a render the ref follows the element: a new element has no stream, and an
  element that is no longer rendered is gone together with its \<open>srcObject\<close>.\<close>

definition attachRefs :: "app \<Rightarrow> app" where
  "attachRefs s =
     (if cameraView s
      then (case videoRef s of None \<Rightarrow> s\<lparr>videoRef := Some None\<rparr> | Some v \<Rightarrow> s)
      else s\<lparr>videoRef := None\<rparr>)"

definition calorieLogRecord :: "string \<Rightarrow> int \<Rightarrow> json" where
  "calorieLogRecord d c = JObj [(''date'', JStr d), (''calories'', JNum c)]"

text \<open>The three \<open>useEffect\<close> bodies. Each runs after a render in which its dependency has
  changed; \<open>old\<close> is the state of the previous render.\<close>

definition persistDarkMode :: "app \<Rightarrow> app" where
  "persistDarkMode s =
     s\<lparr>localStorage := (localStorage s)\<lparr>ls_darkMode := Some (String_of_bool (darkMode s))\<rparr>\<rparr>"

definition persistGoal :: "app \<Rightarrow> app" where
  "persistGoal s =
     s\<lparr>localStorage := (localStorage s)\<lparr>ls_dailyCalorieGoal := Some (dailyCalorieGoalStr s)\<rparr>\<rparr>"

definition persistCalorieLog :: "app \<Rightarrow> app" where
  "persistCalorieLog s =
     s\<lparr>localStorage := (localStorage s)\<lparr>ls_calorieLog :=
          Some (JSON_stringify (calorieLogRecord (today s) (consumedCalories s)))\<rparr>\<rparr>"

definition runEffects :: "app \<Rightarrow> app \<Rightarrow> app" where
  "runEffects old new =
     (let s1 = (if darkMode new \<noteq> darkMode old then persistDarkMode new else new);
          s2 = (if dailyCalorieGoalStr new \<noteq> dailyCalorieGoalStr old then persistGoal s1 else s1)
      in if consumedCalories new \<noteq> consumedCalories old then persistCalorieLog s2 else s2)"

definition commit :: "app \<Rightarrow> app \<Rightarrow> app" where
  "commit old new = runEffects old (attachRefs new)"

text \<open>
  The first render. The state variable \<open>consumedCalories\<close> is declared a number; a stored
  record of today whose \<open>calories\<close> member is not an integer would put another value into it,
  which this model does not follow: the result is \<open>None\<close> then. After the first render all
  three effects run.
\<close>

definition initialState :: "storage \<Rightarrow> string \<Rightarrow> app option" where
  "initialState st d =
     (case loadConsumedCalories st d of
        Val (JNum c) \<Rightarrow>
          Some \<lparr> activeTab = calorie, image_data = None, isAnalyzing = False, analysis = None,
                 error = None, cameraActive = False, mealLogged = False,
                 dailyCalorieGoalStr = initialGoalStr st, consumedCalories = c,
                 darkMode = initialDarkMode st, videoRef = None,
                 canvasWidth = 300, canvasHeight = 150,
                 localStorage = st, tracks = [], today = d \<rparr>
      | _ \<Rightarrow> None)"

definition mount :: "storage \<Rightarrow> string \<Rightarrow> app option" where
  "mount st d =
     map_option (\<lambda>s. persistCalorieLog (persistGoal (persistDarkMode (attachRefs s))))
       (initialState st d)"

subsection \<open>The camera\<close>

definition stopTracks :: "MediaStream \<Rightarrow> readyState list \<Rightarrow> readyState list" where
  "stopTracks ms ts = foldl (\<lambda>acc i. acc[i := ended]) ts ms"

text \<open>\<open>startCamera\<close> up to its \<open>await\<close>, and its two continuations: the promise of
  \<open>getUserMedia\<close> resolves with a stream of \<open>n\<close> new live tracks, or it rejects.\<close>

definition startCamera_begin :: "app \<Rightarrow> app" where
  "startCamera_begin s = s\<lparr>error := None, cameraActive := True\<rparr>"

definition startCamera_resolved :: "nat \<Rightarrow> app \<Rightarrow> app" where
  "startCamera_resolved n s =
     (let stream = [length (tracks s) ..< length (tracks s) + n];
          s1 = s\<lparr>tracks := tracks s @ replicate n live\<rparr>
      in case videoRef s1 of
           None \<Rightarrow> s1
         | Some v \<Rightarrow> s1\<lparr>videoRef := Some (Some stream)\<rparr>)"

definition startCamera_rejected :: "app \<Rightarrow> app" where
  "startCamera_rejected s =
     s\<lparr>error := Some ''Could not access camera. Please ensure you've granted permission.'',
       cameraActive := False\<rparr>"

definition stopCamera :: "app \<Rightarrow> app" where
  "stopCamera s =
     (case videoRef s of
        Some (Some ms) \<Rightarrow> s\<lparr>tracks := stopTracks ms (tracks s), videoRef := Some None\<rparr>
      | _ \<Rightarrow> s)\<lparr>cameraActive := False\<rparr>"

text \<open>Assigning a number to \<open>canvas.width\<close> converts it to an unsigned long: the fraction is
  cut off and the result taken modulo \<open>2^32\<close>. (The attribute then falls back to its default
  for a value above \<open>2^31 - 1\<close>; the sizes computed here stay far below.)\<close>

definition toUnsignedLong :: "real \<Rightarrow> nat" where
  "toUnsignedLong v = nat ((if v \<ge> 0 then \<lfloor>v\<rfloor> else \<lceil>v\<rceil>) mod 2 ^ 32)"

text \<open>The size computation of \<open>captureImage\<close>, from \<open>video.videoWidth\<close> and
  \<open>video.videoHeight\<close> to the size the canvas gets. \<open>rnd\<close> rounds an exact quotient or
  product to a double.\<close>

definition canvasSize :: "(real \<Rightarrow> real) \<Rightarrow> nat \<Rightarrow> nat \<Rightarrow> nat \<times> nat" where
  "canvasSize rnd videoWidth videoHeight =
     (let maxDim = 1024;
          width = real videoWidth;
          height = real videoHeight;
          (width, height) =
            (if width > height
             then (if width > maxDim then (maxDim, rnd (height * rnd (maxDim / width)))
                   else (width, height))
             else (if height > maxDim then (rnd (width * rnd (maxDim / height)), maxDim)
                   else (width, height)))
      in (toUnsignedLong width, toUnsignedLong height))"

text \<open>\<open>captureImage\<close>: \<open>ctx\<close> tells whether \<open>getContext('2d')\<close> gave a context, and \<open>url\<close> is
  what \<open>toDataURL\<close> returns for the frame drawn.\<close>

definition captureImage :: "(real \<Rightarrow> real) \<Rightarrow> nat \<Rightarrow> nat \<Rightarrow> bool \<Rightarrow> string \<Rightarrow> app \<Rightarrow> app" where
  "captureImage rnd videoWidth videoHeight ctx url s =
     (case videoRef s of
        None \<Rightarrow> s
      | Some v \<Rightarrow>
          (let (w, h) = canvasSize rnd videoWidth videoHeight;
               s1 = s\<lparr>canvasWidth := w, canvasHeight := h\<rparr>
           in if ctx then stopCamera (s1\<lparr>image_data := Some url\<rparr>) else s1))"

subsection \<open>The other handlers\<close>

text \<open>\<open>reader.onloadend\<close> of \<open>handleFileUpload\<close>; \<open>reader.result\<close> is \<open>null\<close> when the read
  failed.\<close>

definition fileLoaded :: "string option \<Rightarrow> app \<Rightarrow> app" where
  "fileLoaded result s = s\<lparr>image_data := result, analysis := None, mealLogged := False\<rparr>"

definition handleAnalyze_begin :: "app \<Rightarrow> app" where
  "handleAnalyze_begin s =
     (if noImage s then s
      else s\<lparr>isAnalyzing := True, error := None, mealLogged := False\<rparr>)"

definition handleAnalyze_resolved :: "NutritionAnalysis \<Rightarrow> app \<Rightarrow> app" where
  "handleAnalyze_resolved r s = s\<lparr>analysis := Some r, isAnalyzing := False\<rparr>"

definition handleAnalyze_rejected :: "app \<Rightarrow> app" where
  "handleAnalyze_rejected s =
     s\<lparr>error := Some ''Analysis failed. Please try again with a clearer photo.'',
       isAnalyzing := False\<rparr>"

text \<open>
  \<open>handleLogMeal\<close> is a closure of the render that made it: the guard reads \<open>analysis\<close> and
  \<open>mealLogged\<close> as that render had them (\<open>render\<close>), while the update
  \<open>setConsumedCalories(prev => prev + analysis.totalCalories)\<close> works on the state as it is
  when the update is applied (\<open>s\<close>). A click on the button finds the handler of the latest
  render, for which the two are the same state; the handler of one render called again before
  the next render still has the values of that render. The other handlers read nothing from
  the render that a call of theirs changes, so for them the difference does not show.
\<close>

definition handleLogMeal :: "app \<Rightarrow> app \<Rightarrow> app" where
  "handleLogMeal render s =
     (case analysis render of
        None \<Rightarrow> s
      | Some a \<Rightarrow>
          if \<not> mealLogged render
          then s\<lparr>consumedCalories := consumedCalories s + totalCalories a, mealLogged := True\<rparr>
          else s)"

text \<open>\<open>reset\<close> (of its other setters, those of the workout and journey tabs are left out).\<close>

definition reset :: "app \<Rightarrow> app" where
  "reset s =
     s\<lparr>image_data := None, analysis := None, error := None, cameraActive := False,
       mealLogged := False\<rparr>"

definition resetDay :: "app \<Rightarrow> app" where
  "resetDay s = s\<lparr>consumedCalories := 0\<rparr>"

subsection \<open>Events\<close>

text \<open>
  What can happen to the running application: a click on a control, the completion of
  something awaited, and the calendar day changing. \<open>fire\<close> is the handler followed by the
  render and the effects. A click is possible only while its control is rendered, which
  \<open>enabled\<close> tells; \<open>step\<close> is \<open>None\<close> for a click on a control that is not on the screen.
  The header's Reset button and the completions are taken to be possible at any time, which
  allows more runs than the screen does.
\<close>

datatype event =
    ClickTab tab
  | ClickReset
  | ClickOpenCamera
  | CameraGranted nat
  | CameraDenied
  | ClickStopCamera
  | ClickCapture nat nat bool string
  | FileLoaded "string option"
  | ClickAnalyze
  | AnalysisDone NutritionAnalysis
  | AnalysisFailed
  | ClickLogMeal
  | ClickResetDay
  | ChangeGoal codeUnits
  | ToggleDarkMode
  | NewDay string

fun enabled :: "event \<Rightarrow> app \<Rightarrow> bool" where
  "enabled ClickOpenCamera s = startView s"
| "enabled ClickResetDay s = startView s"
| "enabled (ChangeGoal t) s = startView s"
| "enabled ClickStopCamera s = cameraView s"
| "enabled (ClickCapture w h ctx url) s = cameraView s"
| "enabled ClickAnalyze s = (previewView s \<and> analysis s = None \<and> \<not> isAnalyzing s)"
| "enabled ClickLogMeal s = (previewView s \<and> analysis s \<noteq> None \<and> \<not> mealLogged s)"
| "enabled _ s = True"

fun handler :: "(real \<Rightarrow> real) \<Rightarrow> event \<Rightarrow> app \<Rightarrow> app" where
  "handler rnd (ClickTab t) s = reset (s\<lparr>activeTab := t\<rparr>)"
| "handler rnd ClickReset s = reset s"
| "handler rnd ClickOpenCamera s = startCamera_begin s"
| "handler rnd (CameraGranted n) s = startCamera_resolved n s"
| "handler rnd CameraDenied s = startCamera_rejected s"
| "handler rnd ClickStopCamera s = stopCamera s"
| "handler rnd (ClickCapture w h ctx url) s = captureImage rnd w h ctx url s"
| "handler rnd (FileLoaded r) s = fileLoaded r s"
| "handler rnd ClickAnalyze s = handleAnalyze_begin s"
| "handler rnd (AnalysisDone r) s = handleAnalyze_resolved r s"
| "handler rnd AnalysisFailed s = handleAnalyze_rejected s"
| "handler rnd ClickLogMeal s = handleLogMeal s s"
| "handler rnd ClickResetDay s = resetDay s"
| "handler rnd (ChangeGoal t) s = s\<lparr>dailyCalorieGoalStr := t\<rparr>"
| "handler rnd ToggleDarkMode s = s\<lparr>darkMode := \<not> darkMode s\<rparr>"
| "handler rnd (NewDay d) s = s\<lparr>today := d\<rparr>"

definition fire :: "(real \<Rightarrow> real) \<Rightarrow> event \<Rightarrow> app \<Rightarrow> app" where
  "fire rnd e s = commit s (handler rnd e s)"

definition step :: "(real \<Rightarrow> real) \<Rightarrow> event \<Rightarrow> app \<Rightarrow> app option" where
  "step rnd e s = (if enabled e s then Some (fire rnd e s) else None)"

fun run :: "(real \<Rightarrow> real) \<Rightarrow> event list \<Rightarrow> app \<Rightarrow> app option" where
  "run rnd [] s = Some s"
| "run rnd (e # es) s = (case step rnd e s of None \<Rightarrow> None | Some s' \<Rightarrow> run rnd es s')"

subsection \<open>A first visit\<close>

text \<open>Storage that holds nothing, and the state of the application once it has been opened
  on such storage on the day \<open>d\<close> (the first render and its effects).\<close>

definition emptyStorage :: storage where
  "emptyStorage = \<lparr>ls_calorieLog = None, ls_dailyCalorieGoal = None, ls_darkMode = None\<rparr>"

definition firstVisit :: "string \<Rightarrow> app" where
  "firstVisit d =
     \<lparr> activeTab = calorie, image_data = None, isAnalyzing = False, analysis = None,
       error = None, cameraActive = False, mealLogged = False,
       dailyCalorieGoalStr = str ''2000'', consumedCalories = 0,
       darkMode = False, videoRef = None, canvasWidth = 300, canvasHeight = 150,
       localStorage =
         \<lparr> ls_calorieLog = Some (Json (JObj [(''date'', JStr d), (''calories'', JNum 0)])),
           ls_dailyCalorieGoal = Some (str ''2000''),
           ls_darkMode = Some ''false'' \<rparr>,
       tracks = [], today = d \<rparr>"

section \<open>Vocabulary for the properties\<close>

subsection \<open>Observing the camera\<close>

text \<open>The tracks that are still live, by index.\<close>

definition liveTracks :: "app \<Rightarrow> nat set" where
  "liveTracks s = set (filter (\<lambda>i. tracks s ! i = live) [0 ..< length (tracks s)])"

subsection \<open>Observing the ledger\<close>

text \<open>\<open>storedCalories\<close>: the \<open>calories\<close> member of the stored record.
  \<open>coherent\<close>: a reload on the same day would show the total that is shown now.
  \<open>recorded\<close>: the stored record carries the total that is shown now, under whatever day.
  \<open>guarded\<close>: a meal marked as logged belongs to an image on the preview screen.\<close>

definition storedCalories :: "storage \<Rightarrow> jsval" where
  "storedCalories st =
     (case ls_calorieLog st of
        Some (Json v) \<Rightarrow> getProp v ''calories''
      | _ \<Rightarrow> Undefined)"

definition coherent :: "app \<Rightarrow> bool" where
  "coherent s =
     (loadConsumedCalories (localStorage s) (today s) = Val (JNum (consumedCalories s)))"

definition recorded :: "app \<Rightarrow> bool" where
  "recorded s = (storedCalories (localStorage s) = Val (JNum (consumedCalories s)))"

definition guarded :: "app \<Rightarrow> bool" where
  "guarded s = (mealLogged s \<longrightarrow> \<not> noImage s \<and> \<not> cameraActive s)"

subsection \<open>A meal, from photo to ledger\<close>

text \<open>The events of one meal: the previous result is put away (Analyze Another Meal), a
  photo is loaded from a file, analysed with the result of \<open>a\<close> calories, and logged.\<close>

definition meal :: "string \<Rightarrow> int \<Rightarrow> event list" where
  "meal url a =
     [ClickReset, FileLoaded (Some url), ClickAnalyze,
      AnalysisDone \<lparr>totalCalories = a, summary = []\<rparr>, ClickLogMeal]"

subsection \<open>Some states of a session\<close>

text \<open>
  \<open>cameraOpen d\<close>: a first visit on which the camera has been opened and permission granted
  for a stream of one track. \<open>analysed d url a\<close>: a first visit on which a photo has been
  loaded and analysed with the result of \<open>a\<close> calories, not logged yet. \<open>afterMeal d c\<close>: the
  start screen of a session of day \<open>d\<close> whose total is \<open>c\<close>, stored under \<open>d\<close>.
\<close>

definition cameraOpen :: "string \<Rightarrow> app" where
  "cameraOpen d =
     (firstVisit d)\<lparr>cameraActive := True, videoRef := Some (Some [0]), tracks := [live]\<rparr>"

definition analysed :: "string \<Rightarrow> string \<Rightarrow> int \<Rightarrow> app" where
  "analysed d url a =
     (firstVisit d)\<lparr>image_data := Some url,
                    analysis := Some \<lparr>totalCalories = a, summary = []\<rparr>\<rparr>"

definition afterMeal :: "string \<Rightarrow> int \<Rightarrow> app" where
  "afterMeal d c =
     (firstVisit d)\<lparr>consumedCalories := c,
                    localStorage := (localStorage (firstVisit d))
                      \<lparr>ls_calorieLog := Some (Json (calorieLogRecord d c))\<rparr>\<rparr>"

section \<open>Properties\<close>

subsection \<open>parseInt on examples\<close>

lemma parseInt_2000: "parseInt (str ''2000'') = Some 2000"
  by (simp add: parseInt_def str_def isWhiteSpace_def digitValue_def digitsValue_def)

lemma parseInt_examples:
  "parseInt (str ''  -42kcal'') = Some (- 42)"
  "parseInt (str ''0x1F'') = Some 31"
  "parseInt (str ''12.5'') = Some 12"
  "parseInt (str ''abc'') = None"
  "parseInt (160 # str ''1800 kcal'') = Some 1800"
  "parseInt (65279 # 8195 # str ''1800'') = Some 1800"
  by (simp_all add: parseInt_def str_def isWhiteSpace_def digitValue_def digitsValue_def)

lemma parseInt_Nil: "parseInt [] = None"
  by (simp add: parseInt_def)

subsection \<open>The dark-mode flag\<close>

text \<open>
  C10. The dark-mode flag survives persistence: for every boolean \<open>b\<close>, the effect stores
  \<open>b\<close> as the text \<open>true\<close> or \<open>false\<close>, and the initialiser run on that storage gives \<open>b\<close>
  back; storage with no \<open>darkMode\<close> item, or with any text other than \<open>true\<close>, initialises
  the flag to false.
\<close>

theorem darkMode_roundtrip:
  "ls_darkMode (localStorage (persistDarkMode (s\<lparr>darkMode := b\<rparr>)))
     = Some (if b then ''true'' else ''false'')
   \<and> initialDarkMode (localStorage (persistDarkMode (s\<lparr>darkMode := b\<rparr>))) = b
   \<and> (ls_darkMode st \<noteq> Some ''true'' \<longrightarrow> initialDarkMode st = False)"
  by (simp add: persistDarkMode_def initialDarkMode_def String_of_bool_def)

theorem darkMode_roundtrip_witness:
  "ls_darkMode (emptyStorage\<lparr>ls_darkMode := Some ''dark''\<rparr>) \<noteq> Some ''true''
   \<and> initialDarkMode (emptyStorage\<lparr>ls_darkMode := Some ''dark''\<rparr>) = False
   \<and> initialDarkMode emptyStorage = False
   \<and> initialDarkMode (localStorage (persistDarkMode ((firstVisit ''Tue Nov 03 2026'')\<lparr>darkMode := True\<rparr>)))
       = True"
  using darkMode_roundtrip [where s = "firstVisit ''Tue Nov 03 2026''" and b = True
      and st = "emptyStorage\<lparr>ls_darkMode := Some ''dark''\<rparr>"]
    darkMode_roundtrip [where s = "firstVisit ''Tue Nov 03 2026''" and b = True
      and st = emptyStorage]
  by (simp add: emptyStorage_def)

subsection \<open>The first render\<close>

lemma mount_emptyStorage: "mount emptyStorage d = Some (firstVisit d)"
  by (simp add: mount_def initialState_def emptyStorage_def loadConsumedCalories_def
      loadConsumedCalories_try_def attachRefs_def cameraView_def noImage_def
      persistDarkMode_def persistGoal_def persistCalorieLog_def initialGoalStr_def
      initialDarkMode_def String_of_bool_def JSON_stringify_def calorieLogRecord_def
      firstVisit_def)

lemma dailyCalorieGoal_firstVisit: "dailyCalorieGoal (firstVisit d) = 2000"
  by (simp add: dailyCalorieGoal_def goalOfStr_def firstVisit_def parseInt_2000)

subsection \<open>Reading the ledger\<close>

text \<open>
  C8, as the claim states it, fails: a stored record that carries today's key but no
  \<open>calories\<close> member is malformed, and \<open>loadConsumedCalories\<close> returns \<open>undefined\<close> for
  it, not 0. Nor is a malformed goal treated as an absent one: the goal text \<open>lots\<close> gives
  the goal 0, no goal text gives 2000.
\<close>

theorem loadConsumedCalories_malformed_counterexample:
  "loadConsumedCalories
     \<lparr> ls_calorieLog = Some (Json (JObj [(''date'', JStr ''Tue Nov 03 2026'')])),
       ls_dailyCalorieGoal = None, ls_darkMode = None \<rparr>
     ''Tue Nov 03 2026'' = Undefined
   \<and> Undefined \<noteq> Val (JNum 0)
   \<and> goalOfStr (initialGoalStr (emptyStorage\<lparr>ls_dailyCalorieGoal := Some (str ''lots'')\<rparr>)) = 0
   \<and> goalOfStr (initialGoalStr emptyStorage) = 2000"
  by (simp add: loadConsumedCalories_def loadConsumedCalories_try_def JSON_parse_def
      destructure_def goalOfStr_def initialGoalStr_def emptyStorage_def parseInt_def
      str_def isWhiteSpace_def digitValue_def digitsValue_def)

text \<open>
  C8, amended. \<open>loadConsumedCalories\<close> never throws: whatever the \<open>try\<close> block throws is
  caught and the result is 0. It returns 0 when there is no \<open>calorieLog\<close> item, when the item
  is not JSON, and when the parsed value is \<open>null\<close> or has no \<open>date\<close> member equal to today's
  key; for a record of today with an integer \<open>calories\<close> member it returns that member. A
  goal item that is absent or empty gives the goal 2000; a goal text in which \<open>parseInt\<close>
  finds no number gives the goal 0; any other goal text gives the number that \<open>parseInt\<close>
  reads.
\<close>

theorem loadConsumedCalories_defaults:
  "(\<forall>e. loadConsumedCalories_try st d = Inl e \<longrightarrow> loadConsumedCalories st d = Val (JNum 0))
   \<and> (ls_calorieLog st = None \<longrightarrow> loadConsumedCalories st d = Val (JNum 0))
   \<and> (ls_calorieLog st = Some NotJSON \<longrightarrow> loadConsumedCalories st d = Val (JNum 0))
   \<and> (ls_calorieLog st = Some (Json v) \<and> (v = JNull \<or> getProp v ''date'' \<noteq> Val (JStr d))
        \<longrightarrow> loadConsumedCalories st d = Val (JNum 0))
   \<and> (ls_calorieLog st = Some (Json v) \<and> v \<noteq> JNull \<and> getProp v ''date'' = Val (JStr d)
        \<and> getProp v ''calories'' = Val (JNum c)
        \<longrightarrow> loadConsumedCalories st d = Val (JNum c))
   \<and> (parseInt t = None \<longrightarrow> goalOfStr t = 0)
   \<and> (ls_dailyCalorieGoal st = None \<or> ls_dailyCalorieGoal st = Some []
        \<longrightarrow> initialGoalStr st = str ''2000'' \<and> goalOfStr (initialGoalStr st) = 2000)
   \<and> (ls_dailyCalorieGoal st = Some t \<and> t \<noteq> [] \<and> parseInt t = None
        \<longrightarrow> goalOfStr (initialGoalStr st) = 0)
   \<and> (ls_dailyCalorieGoal st = Some t \<and> parseInt t = Some n
        \<longrightarrow> goalOfStr (initialGoalStr st) = n)"
proof -
  have load: "(\<forall>e. loadConsumedCalories_try st d = Inl e \<longrightarrow> loadConsumedCalories st d = Val (JNum 0))
   \<and> (ls_calorieLog st = None \<longrightarrow> loadConsumedCalories st d = Val (JNum 0))
   \<and> (ls_calorieLog st = Some NotJSON \<longrightarrow> loadConsumedCalories st d = Val (JNum 0))
   \<and> (ls_calorieLog st = Some (Json v) \<and> (v = JNull \<or> getProp v ''date'' \<noteq> Val (JStr d))
        \<longrightarrow> loadConsumedCalories st d = Val (JNum 0))
   \<and> (ls_calorieLog st = Some (Json v) \<and> v \<noteq> JNull \<and> getProp v ''date'' = Val (JStr d)
        \<and> getProp v ''calories'' = Val (JNum c)
        \<longrightarrow> loadConsumedCalories st d = Val (JNum c))"
    by (auto simp: loadConsumedCalories_def loadConsumedCalories_try_def JSON_parse_def
        destructure_def split: json.splits)
  have g0: "parseInt t = None \<longrightarrow> goalOfStr t = 0"
    by (simp add: goalOfStr_def)
  have g1: "ls_dailyCalorieGoal st = None \<or> ls_dailyCalorieGoal st = Some []
        \<longrightarrow> initialGoalStr st = str ''2000'' \<and> goalOfStr (initialGoalStr st) = 2000"
    by (auto simp: initialGoalStr_def goalOfStr_def parseInt_2000)
  have g2: "ls_dailyCalorieGoal st = Some t \<and> t \<noteq> [] \<and> parseInt t = None
        \<longrightarrow> goalOfStr (initialGoalStr st) = 0"
    by (simp add: initialGoalStr_def goalOfStr_def)
  have g3: "ls_dailyCalorieGoal st = Some t \<and> parseInt t = Some n
        \<longrightarrow> goalOfStr (initialGoalStr st) = n"
    using parseInt_Nil by (auto simp: initialGoalStr_def goalOfStr_def)
  show ?thesis using load g0 g1 g2 g3 by blast
qed

theorem loadConsumedCalories_defaults_witness:
  "loadConsumedCalories emptyStorage ''Tue Nov 03 2026'' = Val (JNum 0)
   \<and> loadConsumedCalories_try (emptyStorage\<lparr>ls_calorieLog := Some NotJSON\<rparr>) ''Tue Nov 03 2026''
       = Inl SyntaxError
   \<and> loadConsumedCalories (emptyStorage\<lparr>ls_calorieLog := Some NotJSON\<rparr>) ''Tue Nov 03 2026''
       = Val (JNum 0)
   \<and> loadConsumedCalories_try (emptyStorage\<lparr>ls_calorieLog := Some (Json JNull)\<rparr>) ''Tue Nov 03 2026''
       = Inl TypeError
   \<and> loadConsumedCalories (emptyStorage\<lparr>ls_calorieLog := Some (Json JNull)\<rparr>) ''Tue Nov 03 2026''
       = Val (JNum 0)
   \<and> loadConsumedCalories
       (emptyStorage\<lparr>ls_calorieLog := Some (Json (calorieLogRecord ''Mon Nov 02 2026'' 500))\<rparr>)
       ''Tue Nov 03 2026'' = Val (JNum 0)
   \<and> loadConsumedCalories
       (emptyStorage\<lparr>ls_calorieLog := Some (Json (calorieLogRecord ''Tue Nov 03 2026'' 500))\<rparr>)
       ''Tue Nov 03 2026'' = Val (JNum 500)
   \<and> parseInt (str ''lots'') = None \<and> goalOfStr (str ''lots'') = 0
   \<and> goalOfStr (initialGoalStr emptyStorage) = 2000
   \<and> goalOfStr (initialGoalStr (emptyStorage\<lparr>ls_dailyCalorieGoal := Some []\<rparr>)) = 2000
   \<and> goalOfStr (initialGoalStr (emptyStorage\<lparr>ls_dailyCalorieGoal := Some (str ''lots'')\<rparr>)) = 0
   \<and> parseInt (160 # str ''1800 kcal'') = Some 1800
   \<and> goalOfStr (initialGoalStr
         (emptyStorage\<lparr>ls_dailyCalorieGoal := Some (160 # str ''1800 kcal'')\<rparr>)) = 1800"
proof -
  let ?d = "''Tue Nov 03 2026''"
  let ?n = "160 # str ''1800 kcal''"
  have p: "parseInt (str ''lots'') = None"
    by (simp add: parseInt_def str_def isWhiteSpace_def digitValue_def)
  have q: "parseInt ?n = Some 1800"
    by (simp add: parseInt_def str_def isWhiteSpace_def digitValue_def digitsValue_def)
  have t1: "loadConsumedCalories_try (emptyStorage\<lparr>ls_calorieLog := Some NotJSON\<rparr>) ?d
              = Inl SyntaxError"
    by (simp add: loadConsumedCalories_try_def JSON_parse_def)
  have t2: "loadConsumedCalories_try (emptyStorage\<lparr>ls_calorieLog := Some (Json JNull)\<rparr>) ?d
              = Inl TypeError"
    by (simp add: loadConsumedCalories_try_def JSON_parse_def destructure_def)
  note a = loadConsumedCalories_defaults
             [where st = emptyStorage and d = ?d and v = JNull and c = 0 and t = "str ''lots''"
                and n = 0]
  note b = loadConsumedCalories_defaults
             [where st = "emptyStorage\<lparr>ls_calorieLog := Some NotJSON\<rparr>" and d = ?d
                and v = JNull and c = 0 and t = "str ''lots''" and n = 0]
  note c = loadConsumedCalories_defaults
             [where st = "emptyStorage\<lparr>ls_calorieLog := Some (Json JNull)\<rparr>" and d = ?d
                and v = JNull and c = 0 and t = "str ''lots''" and n = 0]
  note d = loadConsumedCalories_defaults
             [where st = "emptyStorage\<lparr>ls_calorieLog := Some (Json (calorieLogRecord ''Mon Nov 02 2026'' 500))\<rparr>"
                and d = ?d and v = "calorieLogRecord ''Mon Nov 02 2026'' 500" and c = 0
                and t = "str ''lots''" and n = 0]
  note e = loadConsumedCalories_defaults
             [where st = "emptyStorage\<lparr>ls_calorieLog := Some (Json (calorieLogRecord ''Tue Nov 03 2026'' 500))\<rparr>"
                and d = ?d and v = "calorieLogRecord ''Tue Nov 03 2026'' 500" and c = 500
                and t = "str ''lots''" and n = 0]
  note f = loadConsumedCalories_defaults
             [where st = "emptyStorage\<lparr>ls_dailyCalorieGoal := Some []\<rparr>" and d = ?d
                and v = JNull and c = 0 and t = "str ''lots''" and n = 0]
  note g = loadConsumedCalories_defaults
             [where st = "emptyStorage\<lparr>ls_dailyCalorieGoal := Some (str ''lots'')\<rparr>" and d = ?d
                and v = JNull and c = 0 and t = "str ''lots''" and n = 0]
  note h = loadConsumedCalories_defaults
             [where st = "emptyStorage\<lparr>ls_dailyCalorieGoal := Some ?n\<rparr>" and d = ?d
                and v = JNull and c = 0 and t = ?n and n = 1800]
  have 1: "loadConsumedCalories emptyStorage ?d = Val (JNum 0)"
    using a by (simp add: emptyStorage_def)
  have 2: "loadConsumedCalories (emptyStorage\<lparr>ls_calorieLog := Some NotJSON\<rparr>) ?d = Val (JNum 0)"
    using b by simp
  have 3: "loadConsumedCalories (emptyStorage\<lparr>ls_calorieLog := Some (Json JNull)\<rparr>) ?d
             = Val (JNum 0)"
    using c by simp
  have 4: "loadConsumedCalories
       (emptyStorage\<lparr>ls_calorieLog := Some (Json (calorieLogRecord ''Mon Nov 02 2026'' 500))\<rparr>)
       ?d = Val (JNum 0)"
    using d by (simp add: calorieLogRecord_def)
  have 5: "loadConsumedCalories
       (emptyStorage\<lparr>ls_calorieLog := Some (Json (calorieLogRecord ''Tue Nov 03 2026'' 500))\<rparr>)
       ?d = Val (JNum 500)"
    using e by (simp add: calorieLogRecord_def)
  have 6: "goalOfStr (str ''lots'') = 0" using a p by blast
  have n7: "ls_dailyCalorieGoal emptyStorage = None" by (simp add: emptyStorage_def)
  have 7: "goalOfStr (initialGoalStr emptyStorage) = 2000"
    using a n7 by blast
  have n8: "ls_dailyCalorieGoal (emptyStorage\<lparr>ls_dailyCalorieGoal := Some []\<rparr>) = Some []"
    by simp
  have 8: "goalOfStr (initialGoalStr (emptyStorage\<lparr>ls_dailyCalorieGoal := Some []\<rparr>)) = 2000"
    using f n8 by blast
  have n9: "ls_dailyCalorieGoal (emptyStorage\<lparr>ls_dailyCalorieGoal := Some (str ''lots'')\<rparr>)
              = Some (str ''lots'')" "str ''lots'' \<noteq> []"
    by (simp_all add: str_def)
  have 9: "goalOfStr (initialGoalStr (emptyStorage\<lparr>ls_dailyCalorieGoal := Some (str ''lots'')\<rparr>)) = 0"
    using g p n9 by blast
  have n10: "ls_dailyCalorieGoal (emptyStorage\<lparr>ls_dailyCalorieGoal := Some ?n\<rparr>) = Some ?n"
    by simp
  have 10: "goalOfStr (initialGoalStr (emptyStorage\<lparr>ls_dailyCalorieGoal := Some ?n\<rparr>)) = 1800"
    using h q n10 by blast
  show ?thesis
    by (intro conjI) (rule 1 t1 2 t2 3 4 5 p 6 7 8 9 q 10)+
qed

subsection \<open>Remaining calories and the progress bar\<close>

lemma progressPercent_not_above_100: "\<not> js_greater (progressPercent rnd s) 100"
  unfolding progressPercent_def js_divide_def by auto

text \<open>With a goal other than 0 the bar shows the rounded percentage, capped at 100.\<close>

lemma progressPercent_value:
  "dailyCalorieGoal s \<noteq> 0 \<Longrightarrow>
     progressPercent rnd s =
       Finite (min (rnd (rnd (real_of_int (consumedCalories s) / real_of_int (dailyCalorieGoal s))
                          * 100)) 100)"
  by (simp add: progressPercent_def js_divide_def)

text \<open>The remaining calories are the goal minus the total of the session, by plain
  subtraction; in a state whose stored record agrees with the total shown that is the total
  that \<open>loadConsumedCalories\<close> reads.\<close>

lemma remainingCalories_coherent:
  "coherent s \<Longrightarrow> loadConsumedCalories (localStorage s) (today s) = Val (JNum t) \<Longrightarrow>
     remainingCalories s = dailyCalorieGoal s - t"
  by (simp add: coherent_def remainingCalories_def)

subsection \<open>The size of the captured frame\<close>

text \<open>
  The double arithmetic enters through \<open>rnd\<close> only. What is asked of it is what rounding to
  nearest gives on the numbers that occur: a relative error of at most \<open>2^-53\<close> on results
  between \<open>2^-32\<close> and \<open>2^32\<close>. Exact arithmetic (\<open>rnd\<close> the identity) is one such rounding.
\<close>

lemma rnd_chain:
  fixes a b :: real
  assumes R: "\<forall>x. 1 / 2 ^ 32 \<le> x \<and> x \<le> 2 ^ 32 \<longrightarrow> \<bar>rnd x - x\<bar> \<le> x / 2 ^ 53"
    and a: "1 \<le> a" and ab: "a \<le> b" and b: "1024 < b" and b32: "b < 2 ^ 32"
  shows "\<bar>rnd (a * rnd (1024 / b)) - 1024 * a / b\<bar> \<le> 1024 * a / b * (3 / 2 ^ 53)"
proof -
  define e :: real where "e = 1 / 2 ^ 53"
  define q where "q = 1024 / b"
  define t where "t = a * q"
  have e: "0 < e" "e < 1" by (simp_all add: e_def)
  have q0: "0 < q" using b by (simp add: q_def)
  have qlo: "1 / 2 ^ 22 < q" using b b32 by (simp add: q_def field_simps)
  have qhi: "q < 1" using b by (simp add: q_def)
  have t0: "0 < t" using a q0 by (simp add: t_def)
  have tlo: "q \<le> t" using a q0 by (simp add: t_def)
  have thi: "t \<le> 1024" using a ab b by (simp add: t_def q_def field_simps)
  have 1: "\<bar>rnd q - q\<bar> \<le> q * e"
    using R [rule_format, of q] qlo qhi by (simp add: e_def)
  have "\<bar>a * rnd q - t\<bar> = a * \<bar>rnd q - q\<bar>"
    using a by (simp add: t_def abs_mult flip: right_diff_distrib)
  also have "\<dots> \<le> a * (q * e)" using 1 a by (simp add: mult_left_mono)
  finally have 2: "\<bar>a * rnd q - t\<bar> \<le> t * e" by (simp add: t_def mult.assoc)
  have te: "t * e \<le> t / 2" using t0 by (simp add: e_def)
  have ylo: "t / 2 \<le> a * rnd q" using 2 te by linarith
  have yhi: "a * rnd q \<le> t * (1 + e)" using 2 by (simp add: algebra_simps)
  have "1 / 2 ^ 32 \<le> t / 2" using qlo tlo by simp
  then have y1: "1 / 2 ^ 32 \<le> a * rnd q" using ylo by linarith
  have "t * (1 + e) \<le> 1024 * 2" using thi e t0 by (intro mult_mono) simp_all
  then have y2: "a * rnd q \<le> 2 ^ 32" using yhi by simp
  have "\<bar>rnd (a * rnd q) - a * rnd q\<bar> \<le> a * rnd q * e"
    using R [rule_format, of "a * rnd q"] y1 y2 by (simp add: e_def)
  also have "\<dots> \<le> t * (1 + e) * e" using yhi e by (simp add: mult_right_mono)
  finally have 3: "\<bar>rnd (a * rnd q) - a * rnd q\<bar> \<le> t * (1 + e) * e" .
  have "\<bar>rnd (a * rnd q) - t\<bar> \<le> t * e + t * (1 + e) * e"
    using 2 3 by linarith
  also have "\<dots> = t * (e * (2 + e))" by (simp add: algebra_simps)
  also have "\<dots> \<le> t * (3 / 2 ^ 53)"
  proof -
    have "e * (2 + e) \<le> 3 / 2 ^ 53" by (simp add: e_def)
    then show ?thesis using t0 by (simp only: mult_left_mono less_imp_le)
  qed
  finally have "\<bar>rnd (a * rnd q) - t\<bar> \<le> t * (3 / 2 ^ 53)" .
  moreover have "t = 1024 * a / b" by (simp add: t_def q_def)
  ultimately show ?thesis unfolding q_def by simp
qed

lemma toUnsignedLong_floor: "0 \<le> v \<Longrightarrow> v < 2 ^ 32 \<Longrightarrow> toUnsignedLong v = nat \<lfloor>v\<rfloor>"
proof -
  assume v: "0 \<le> v" "v < 2 ^ 32"
  have "0 \<le> \<lfloor>v\<rfloor>" using v by simp
  moreover have "\<lfloor>v\<rfloor> < 2 ^ 32" using v by (simp add: floor_less_iff)
  ultimately show ?thesis using v by (simp add: toUnsignedLong_def)
qed

lemma toUnsignedLong_1024: "toUnsignedLong 1024 = 1024"
  by (simp add: toUnsignedLong_def)

lemma toUnsignedLong_of_nat: "n \<le> 1024 \<Longrightarrow> toUnsignedLong (real n) = n"
  by (simp add: toUnsignedLong_def)

text \<open>The side that is scaled down: \<open>b\<close> is the longer side, \<open>a\<close> the other one.\<close>

lemma scaled_side:
  fixes a b :: nat
  assumes R: "\<forall>x. 1 / 2 ^ 32 \<le> x \<and> x \<le> 2 ^ 32 \<longrightarrow> \<bar>rnd x - x\<bar> \<le> x / 2 ^ 53"
    and a: "0 < a" and ab: "a \<le> b" and b: "1024 < b" and b32: "b < 2 ^ 32"
  defines "c \<equiv> toUnsignedLong (rnd (real a * rnd (1024 / real b)))"
  shows "c \<le> 1024"
    and "\<bar>real c * real b - 1024 * real a\<bar> < (1 + 1 / 2 ^ 40) * real b"
    and "real c \<le> 1024 * real a / real b + 1 / 2 ^ 40"
    and "1024 * real a / real b - 1 / 2 ^ 40 < real c + 1"
proof -
  define v where "v = rnd (real a * rnd (1024 / real b))"
  define t where "t = 1024 * real a / real b"
  have b0: "0 < real b" using b by simp
  have t0: "0 < t" using a b by (simp add: t_def)
  have t1: "t \<le> 1024" using a ab b by (simp add: t_def field_simps)
  have rel: "\<bar>v - t\<bar> \<le> t * (3 / 2 ^ 53)"
    unfolding v_def t_def using rnd_chain [OF R, of "real a" "real b"] a ab b b32 by simp
  have "t * (3 / 2 ^ 53) \<le> 1024 * (3 / 2 ^ 53)" using t1 by simp
  also have "\<dots> < (1 / 2 ^ 40 :: real)" by simp
  finally have small: "t * (3 / 2 ^ 53) < 1 / 2 ^ 40" .
  have "t * (3 / 2 ^ 53) < t" using t0 by simp
  then have v0: "0 < v" using rel by linarith
  have v1: "v < 1024 + 1 / 2 ^ 40" using rel small t1 by linarith
  have c: "c = nat \<lfloor>v\<rfloor>"
    unfolding c_def v_def [symmetric] using v0 v1 by (intro toUnsignedLong_floor) simp_all
  have f0: "0 \<le> \<lfloor>v\<rfloor>" using v0 by simp
  have rc: "real c = of_int \<lfloor>v\<rfloor>" using c f0 by simp
  have "v < 1024 + 1" using v1 by simp
  then have "\<lfloor>v\<rfloor> \<le> 1024" by (simp only: floor_le_iff of_int_numeral)
  then show "c \<le> 1024" unfolding c by linarith
  have lo: "real c \<le> v" using rc by simp
  have hi: "v < real c + 1" using rc by simp
  have d: "\<bar>real c - t\<bar> < 1 + 1 / 2 ^ 40" using lo hi rel small by linarith
  show "real c \<le> 1024 * real a / real b + 1 / 2 ^ 40"
    using lo rel small unfolding t_def by linarith
  show "1024 * real a / real b - 1 / 2 ^ 40 < real c + 1"
    using hi rel small unfolding t_def by linarith
  have "real c * real b - 1024 * real a = (real c - t) * real b"
    using b0 by (simp add: t_def field_simps)
  then have "\<bar>real c * real b - 1024 * real a\<bar> = \<bar>real c - t\<bar> * real b"
    using b0 by (simp add: abs_mult)
  also have "\<dots> < (1 + 1 / 2 ^ 40) * real b"
    using d b0 by (simp only: mult_strict_right_mono)
  finally show "\<bar>real c * real b - 1024 * real a\<bar> < (1 + 1 / 2 ^ 40) * real b" .
qed

text \<open>With exact arithmetic the scaled side is the exact proportion rounded down.\<close>

lemma exact_side:
  fixes a b :: nat
  assumes a: "a \<le> b" and b: "1024 < b"
  shows "toUnsignedLong (real a * (1024 / real b)) = 1024 * a div b"
proof -
  have eq: "real a * (1024 / real b) = real (1024 * a) / real b" by simp
  have fl: "\<lfloor>real (1024 * a) / real b\<rfloor> = int (1024 * a div b)"
    by (rule floor_divide_of_nat_eq)
  have "1024 * a div b \<le> 1024 * b div b" using a by (intro div_le_mono) simp
  also have "\<dots> = 1024" using b by simp
  finally have le: "1024 * a div b \<le> 1024" .
  have "int (1024 * a div b) mod 2 ^ 32 = int (1024 * a div b)"
    using le by simp
  then show ?thesis
    unfolding toUnsignedLong_def eq fl by simp
qed

lemma canvasSize_exact:
  "canvasSize (\<lambda>x. x) w h =
     (if h < w then (if 1024 < w then (1024, 1024 * h div w) else (w, h))
      else (if 1024 < h then (1024 * w div h, 1024) else (w, h)))"
proof -
  consider (wide) "h < w" "1024 < w" | (tall) "w \<le> h" "1024 < h"
    | (small) "w \<le> 1024" "h \<le> 1024"
    by linarith
  then show ?thesis
  proof cases
    case wide
    have "h \<le> w" using wide by simp
    from exact_side [OF this wide(2)] show ?thesis
      using wide by (simp add: canvasSize_def Let_def toUnsignedLong_1024)
  next
    case tall
    from exact_side [OF tall] show ?thesis
      using tall by (simp add: canvasSize_def Let_def toUnsignedLong_1024)
  next
    case small
    then show ?thesis
      by (auto simp: canvasSize_def Let_def toUnsignedLong_of_nat)
  qed
qed

text \<open>
  C2, as the claim states it, fails: the scaled side is not rounded but cut down to a whole
  number, and nothing keeps it above 0. A frame of 1025 by 1 gets a canvas of 1024 by 0,
  which has no aspect ratio (and no pixel).
\<close>

theorem canvasSize_narrow_counterexample:
  "canvasSize (\<lambda>x. x) 1025 1 = (1024, 0)"
  by (simp add: canvasSize_def toUnsignedLong_def)

text \<open>
  C2, amended. For a frame of \<open>w\<close> by \<open>h\<close> pixels, both positive (and below \<open>2^32\<close>, as the
  unsigned attributes \<open>videoWidth\<close> and \<open>videoHeight\<close> are), the canvas gets a size
  \<open>(w', h')\<close> whose larger side is the larger side of the frame, or 1024 if that is less:
  never more than 1024. A frame whose larger side is at most 1024 keeps its size. Of a larger
  frame the longer side becomes exactly 1024 (the width when it is the greater, else the
  height), and the other side becomes the exact proportion cut down to a whole number: it is
  at most the exact value and less than one pixel below it, up to \<open>2^-40\<close> for the error of
  the double arithmetic. Hence \<open>w' * h\<close> and \<open>w * h'\<close> differ by less than the longer side of
  the frame times \<open>1 + 2^-40\<close>. With exact arithmetic the size is given in closed form.
\<close>

theorem canvasSize_bounded:
  assumes R: "\<forall>x. 1 / 2 ^ 32 \<le> x \<and> x \<le> 2 ^ 32 \<longrightarrow> \<bar>rnd x - x\<bar> \<le> x / 2 ^ 53"
    and w: "0 < w" "w < 2 ^ 32" and h: "0 < h" "h < 2 ^ 32"
    and cs: "canvasSize rnd w h = (w', h')"
  shows "max w' h' = min (max w h) 1024
    \<and> \<bar>real w' * real h - real w * real h'\<bar> < (1 + 1 / 2 ^ 40) * real (max w h)
    \<and> (max w h \<le> 1024 \<longrightarrow> (w', h') = (w, h))
    \<and> (h < w \<and> 1024 < w \<longrightarrow>
          w' = 1024 \<and> real h' \<le> 1024 * real h / real w + 1 / 2 ^ 40
          \<and> 1024 * real h / real w - 1 / 2 ^ 40 < real h' + 1)
    \<and> (w \<le> h \<and> 1024 < h \<longrightarrow>
          h' = 1024 \<and> real w' \<le> 1024 * real w / real h + 1 / 2 ^ 40
          \<and> 1024 * real w / real h - 1 / 2 ^ 40 < real w' + 1)
    \<and> canvasSize (\<lambda>x. x) w h =
         (if h < w then (if 1024 < w then (1024, 1024 * h div w) else (w, h))
          else (if 1024 < h then (1024 * w div h, 1024) else (w, h)))"
proof -
  consider (wide) "h < w" "1024 < w" | (tall) "w \<le> h" "1024 < h"
    | (small) "w \<le> 1024" "h \<le> 1024"
    by linarith
  then have "max w' h' = min (max w h) 1024
    \<and> \<bar>real w' * real h - real w * real h'\<bar> < (1 + 1 / 2 ^ 40) * real (max w h)
    \<and> (max w h \<le> 1024 \<longrightarrow> (w', h') = (w, h))
    \<and> (h < w \<and> 1024 < w \<longrightarrow>
          w' = 1024 \<and> real h' \<le> 1024 * real h / real w + 1 / 2 ^ 40
          \<and> 1024 * real h / real w - 1 / 2 ^ 40 < real h' + 1)
    \<and> (w \<le> h \<and> 1024 < h \<longrightarrow>
          h' = 1024 \<and> real w' \<le> 1024 * real w / real h + 1 / 2 ^ 40
          \<and> 1024 * real w / real h - 1 / 2 ^ 40 < real w' + 1)"
  proof cases
    case wide
    have eq: "w' = 1024" "h' = toUnsignedLong (rnd (real h * rnd (1024 / real w)))"
      using cs wide by (simp_all add: canvasSize_def Let_def toUnsignedLong_1024)
    have hw: "h \<le> w" using wide by simp
    note s = scaled_side [OF R h(1) hw wide(2) w(2), folded eq(2)]
    have "\<bar>real w' * real h - real w * real h'\<bar> = \<bar>real h' * real w - 1024 * real h\<bar>"
      using eq(1) by (simp add: mult.commute abs_minus_commute)
    then have x: "\<bar>real w' * real h - real w * real h'\<bar> < (1 + 1 / 2 ^ 40) * real (max w h)"
      using s(2) wide by (simp add: max_def)
    have m: "max w' h' = min (max w h) 1024"
      using s(1) eq(1) wide by (simp add: max_def min_def)
    show ?thesis using m x s(3,4) eq(1) wide by simp
  next
    case tall
    have eq: "h' = 1024" "w' = toUnsignedLong (rnd (real w * rnd (1024 / real h)))"
      using cs tall by (simp_all add: canvasSize_def Let_def toUnsignedLong_1024)
    note s = scaled_side [OF R w(1) tall h(2), folded eq(2)]
    have "\<bar>real w' * real h - real w * real h'\<bar> = \<bar>real w' * real h - 1024 * real w\<bar>"
      using eq(1) by (simp add: mult.commute)
    then have x: "\<bar>real w' * real h - real w * real h'\<bar> < (1 + 1 / 2 ^ 40) * real (max w h)"
      using s(2) tall by (simp add: max_def)
    have m: "max w' h' = min (max w h) 1024"
      using s(1) eq(1) tall by (simp add: max_def min_def)
    show ?thesis using m x s(3,4) eq(1) tall by simp
  next
    case small
    have "(w', h') = (w, h)"
      using cs small
      by (auto simp: canvasSize_def Let_def toUnsignedLong_of_nat split: if_splits)
    then show ?thesis using small w by (simp add: mult.commute)
  qed
  then show ?thesis using canvasSize_exact [of w h] by blast
qed

text \<open>The frame of 1025 by 1 gets the height 0 with the double arithmetic as well.\<close>

lemma canvasSize_narrow:
  assumes R: "\<forall>x. 1 / 2 ^ 32 \<le> x \<and> x \<le> 2 ^ 32 \<longrightarrow> \<bar>rnd x - x\<bar> \<le> x / 2 ^ 53"
  shows "canvasSize rnd 1025 1 = (1024, 0)"
proof -
  obtain w' h' where cs: "canvasSize rnd 1025 1 = (w', h')" by (cases "canvasSize rnd 1025 1")
  have w: "w' = 1024"
    using cs by (simp add: canvasSize_def Let_def toUnsignedLong_1024)
  have h: "h' = toUnsignedLong (rnd (real 1 * rnd (1024 / real 1025)))"
    using cs by (simp add: canvasSize_def Let_def)
  have "real h' \<le> 1024 * real 1 / real 1025 + 1 / 2 ^ 40"
    unfolding h by (rule scaled_side(3) [OF R]) simp_all
  also have "\<dots> < 1" by simp
  finally have "h' = 0" by simp
  then show ?thesis using cs w by simp
qed

theorem canvasSize_bounded_witness:
  "canvasSize (\<lambda>x. x) 1920 1080 = (1024, 576)
   \<and> max (1024::nat) 576 = min (max 1920 1080) 1024
   \<and> \<bar>real 1024 * real 1080 - real 1920 * real 576\<bar> < (1 + 1 / 2 ^ 40) * real (max 1920 1080)
   \<and> canvasSize (\<lambda>x. x) 1080 1920 = (576, 1024)
   \<and> canvasSize (\<lambda>x. x) 640 480 = (640, 480)
   \<and> canvasSize (\<lambda>x. x) 2000 1999 = (1024, 1023)"
proof -
  have R: "\<forall>x::real. 1 / 2 ^ 32 \<le> x \<and> x \<le> 2 ^ 32 \<longrightarrow> \<bar>x - x\<bar> \<le> x / 2 ^ 53"
    by simp
  have a: "canvasSize (\<lambda>x. x) 1920 1080 = (1024, 576)"
    by (simp add: canvasSize_def toUnsignedLong_def)
  have b: "canvasSize (\<lambda>x. x) 1080 1920 = (576, 1024)"
    by (simp add: canvasSize_def toUnsignedLong_def)
  have c: "canvasSize (\<lambda>x. x) 640 480 = (640, 480)"
    by (simp add: canvasSize_def toUnsignedLong_def)
  have d: "canvasSize (\<lambda>x. x) 2000 1999 = (1024, 1023)"
    by (simp add: canvasSize_def toUnsignedLong_def)
  have 1: "max (1024::nat) 576 = min (max 1920 1080) 1024"
    using canvasSize_bounded [OF R _ _ _ _ a] by simp
  have 2: "\<bar>real 1024 * real 1080 - real 1920 * real 576\<bar>
             < (1 + 1 / 2 ^ 40) * real (max 1920 1080)"
    using canvasSize_bounded [OF R _ _ _ _ a] by simp
  have 3: "canvasSize (\<lambda>x. x) 1080 1920 = (576, 1024)"
    using canvasSize_bounded [OF R _ _ _ _ b] b by simp
  have 4: "canvasSize (\<lambda>x. x) 640 480 = (640, 480)"
    using canvasSize_bounded [OF R _ _ _ _ c] c by simp
  have 5: "canvasSize (\<lambda>x. x) 2000 1999 = (1024, 1023)"
    using canvasSize_bounded [OF R _ _ _ _ d] d by simp
  show ?thesis
    by (intro conjI) (rule a 1 2 3 4 5)+
qed

subsection \<open>Releasing the camera\<close>

lemmas view_defs = startView_def cameraView_def previewView_def noImage_def

lemmas handler_defs = reset_def startCamera_begin_def startCamera_resolved_def
  startCamera_rejected_def stopCamera_def captureImage_def fileLoaded_def
  handleAnalyze_begin_def handleAnalyze_resolved_def handleAnalyze_rejected_def
  handleLogMeal_def resetDay_def

lemmas commit_defs = commit_def runEffects_def attachRefs_def persistDarkMode_def
  persistGoal_def persistCalorieLog_def JSON_stringify_def

lemma run_cameraOpen:
  "run rnd [ClickOpenCamera, CameraGranted 1] (firstVisit d) = Some (cameraOpen d)"
  by (simp add: step_def fire_def view_defs handler_defs commit_defs firstVisit_def
      cameraOpen_def)

lemma length_stopTracks: "length (stopTracks ms ts) = length ts"
  unfolding stopTracks_def by (induction ms arbitrary: ts) auto

lemma nth_stopTracks:
  "i < length ts \<Longrightarrow> stopTracks ms ts ! i = (if i \<in> set ms then ended else ts ! i)"
  unfolding stopTracks_def
proof (induction ms arbitrary: ts)
  case Nil
  then show ?case by simp
next
  case (Cons m ms)
  then show ?case by (auto simp: nth_list_update)
qed

lemma liveTracks_stopTracks:
  "liveTracks (s\<lparr>tracks := stopTracks ms (tracks s)\<rparr>) = liveTracks s - set ms"
  by (auto simp: liveTracks_def length_stopTracks nth_stopTracks split: if_splits)



text \<open>What the capture pipeline does release: a successful capture stops the tracks of the
  attached stream and detaches it, and a refused camera hands out no track.\<close>

lemma captureImage_releases:
  "videoRef s = Some (Some ms) \<Longrightarrow>
     liveTracks (captureImage rnd w h True url s) = liveTracks s - set ms
     \<and> videoRef (captureImage rnd w h True url s) = Some None
     \<and> \<not> cameraActive (captureImage rnd w h True url s)
     \<and> image_data (captureImage rnd w h True url s) = Some url"
  using liveTracks_stopTracks [where s = s and ms = ms]
  by (auto simp: captureImage_def stopCamera_def liveTracks_def split: prod.splits)

lemma startCamera_rejected_tracks:
  "tracks (startCamera_rejected s) = tracks s \<and> \<not> cameraActive (startCamera_rejected s)"
  by (simp add: startCamera_rejected_def)

text \<open>
  C4, on the code. The camera view is left in one more way than by a capture, the stop
  button or a refusal: the tab buttons of the header stay on the screen and call \<open>reset\<close>,
  which clears \<open>cameraActive\<close> and stops nothing. On a first visit, opening the camera,
  granting permission for a stream of one track and then clicking a tab ends with the camera
  view gone, no video element left to reach the stream through, and the track still live.
  The same state is reached when the stop button is clicked while the permission is still
  being asked for and the stream arrives afterwards: \<open>startCamera\<close> finds no video element
  and drops the stream without stopping it.
\<close>

theorem reset_leaves_track_live:
  "run (\<lambda>x. x) [ClickOpenCamera, CameraGranted 1, ClickTab workout]
      (firstVisit ''Tue Nov 03 2026'')
     = Some ((firstVisit ''Tue Nov 03 2026'')\<lparr>activeTab := workout, tracks := [live]\<rparr>)
   \<and> liveTracks ((firstVisit ''Tue Nov 03 2026'')\<lparr>activeTab := workout, tracks := [live]\<rparr>) = {0}
   \<and> videoRef ((firstVisit ''Tue Nov 03 2026'')\<lparr>activeTab := workout, tracks := [live]\<rparr>) = None
   \<and> \<not> cameraActive ((firstVisit ''Tue Nov 03 2026'')\<lparr>activeTab := workout, tracks := [live]\<rparr>)
   \<and> run (\<lambda>x. x) [ClickOpenCamera, ClickStopCamera, CameraGranted 1]
        (firstVisit ''Tue Nov 03 2026'')
       = Some ((firstVisit ''Tue Nov 03 2026'')\<lparr>tracks := [live]\<rparr>)
   \<and> liveTracks ((firstVisit ''Tue Nov 03 2026'')\<lparr>tracks := [live]\<rparr>) = {0}
   \<and> videoRef ((firstVisit ''Tue Nov 03 2026'')\<lparr>tracks := [live]\<rparr>) = None
   \<and> \<not> cameraActive ((firstVisit ''Tue Nov 03 2026'')\<lparr>tracks := [live]\<rparr>)"
  by (simp add: step_def fire_def view_defs handler_defs commit_defs firstVisit_def
      liveTracks_def)

subsection \<open>Rendering and effects\<close>

lemma run_append:
  "run rnd (es @ fs) s = (case run rnd es s of None \<Rightarrow> None | Some s' \<Rightarrow> run rnd fs s')"
  by (induction es arbitrary: s) (auto split: option.splits)

lemma commit_fields:
  "consumedCalories (commit old new) = consumedCalories new"
  "today (commit old new) = today new"
  "dailyCalorieGoalStr (commit old new) = dailyCalorieGoalStr new"
  "mealLogged (commit old new) = mealLogged new"
  "cameraActive (commit old new) = cameraActive new"
  "image_data (commit old new) = image_data new"
  "activeTab (commit old new) = activeTab new"
  "isAnalyzing (commit old new) = isAnalyzing new"
  "analysis (commit old new) = analysis new"
  "tracks (commit old new) = tracks new"
  by (simp_all add: commit_defs Let_def split: option.splits)

lemma commit_calorieLog:
  "ls_calorieLog (localStorage (commit old new)) =
     (if consumedCalories new \<noteq> consumedCalories old
      then Some (Json (calorieLogRecord (today new) (consumedCalories new)))
      else ls_calorieLog (localStorage new))"
  by (simp add: commit_defs Let_def split: option.splits)

lemma cameraView_commit: "cameraView (commit old new) = cameraView new"
  by (simp add: cameraView_def noImage_def commit_fields)

lemma videoRef_runEffects: "videoRef (runEffects old new) = videoRef new"
  by (simp add: runEffects_def persistDarkMode_def persistGoal_def persistCalorieLog_def Let_def)

lemma attachRefs_commit: "attachRefs (commit old new) = commit old new"
proof (cases "cameraView new")
  case True
  then have "videoRef (commit old new) \<noteq> None"
    by (simp add: commit_def videoRef_runEffects attachRefs_def split: option.splits)
  then show ?thesis
    using True by (auto simp: attachRefs_def [of "commit old new"] cameraView_commit)
next
  case False
  then have "videoRef (commit old new) = None"
    by (simp add: commit_def videoRef_runEffects attachRefs_def)
  then show ?thesis
    using False by (simp add: attachRefs_def [of "commit old new"] cameraView_commit)
qed

lemma runEffects_same: "runEffects s s = s"
  by (simp add: runEffects_def)

lemma commit_fixed: "commit (commit old new) (commit old new) = commit old new"
proof -
  have "commit (commit old new) (commit old new)
          = runEffects (commit old new) (attachRefs (commit old new))"
    by (simp add: commit_def [of "commit old new"])
  then show ?thesis by (simp add: attachRefs_commit runEffects_same)
qed

subsection \<open>Logging meals\<close>

lemma load_record:
  "ls_calorieLog st = Some (Json (calorieLogRecord d0 c)) \<Longrightarrow>
     loadConsumedCalories st d = (if d0 = d then Val (JNum c) else Val (JNum 0))"
  by (simp add: loadConsumedCalories_def loadConsumedCalories_try_def JSON_parse_def
      destructure_def calorieLogRecord_def)

lemma load_cong:
  "ls_calorieLog st = ls_calorieLog st' \<Longrightarrow>
     loadConsumedCalories st d = loadConsumedCalories st' d"
  by (simp add: loadConsumedCalories_def loadConsumedCalories_try_def)

lemma coherent_firstVisit: "coherent (firstVisit d)"
  by (simp add: coherent_def firstVisit_def loadConsumedCalories_def
      loadConsumedCalories_try_def JSON_parse_def destructure_def)

text \<open>One meal, on the calorie tab with no analysis under way: every click of it finds its
  control on the screen, the total grows by the amount, and the stored record is rewritten
  under the current day unless the amount is 0.\<close>

lemma meal_run:
  assumes "activeTab s = calorie" "\<not> isAnalyzing s" "coherent s" "url \<noteq> []"
  shows "\<exists>s'. run rnd (meal url a) s = Some s' \<and> activeTab s' = calorie \<and> \<not> isAnalyzing s'
           \<and> coherent s' \<and> consumedCalories s' = consumedCalories s + a
           \<and> today s' = today s \<and> dailyCalorieGoalStr s' = dailyCalorieGoalStr s
           \<and> ls_calorieLog (localStorage s') =
               (if a \<noteq> 0
                then Some (Json (calorieLogRecord (today s) (consumedCalories s + a)))
                else ls_calorieLog (localStorage s))"
proof -
  define s1 where "s1 = fire rnd ClickReset s"
  define s2 where "s2 = fire rnd (FileLoaded (Some url)) s1"
  define s3 where "s3 = fire rnd ClickAnalyze s2"
  define s4 where "s4 = fire rnd (AnalysisDone \<lparr>totalCalories = a, summary = []\<rparr>) s3"
  define s5 where "s5 = fire rnd ClickLogMeal s4"
  have f1: "activeTab s1 = calorie" "\<not> isAnalyzing s1" "consumedCalories s1 = consumedCalories s"
    "today s1 = today s" "dailyCalorieGoalStr s1 = dailyCalorieGoalStr s"
    "ls_calorieLog (localStorage s1) = ls_calorieLog (localStorage s)" "\<not> cameraActive s1"
    using assms by (simp_all add: s1_def fire_def commit_fields commit_calorieLog reset_def)
  have f2: "activeTab s2 = calorie" "\<not> isAnalyzing s2" "consumedCalories s2 = consumedCalories s"
    "today s2 = today s" "dailyCalorieGoalStr s2 = dailyCalorieGoalStr s"
    "ls_calorieLog (localStorage s2) = ls_calorieLog (localStorage s)" "\<not> cameraActive s2"
    "image_data s2 = Some url" "analysis s2 = None"
    using f1 by (simp_all add: s2_def fire_def commit_fields commit_calorieLog fileLoaded_def)
  have e3: "enabled ClickAnalyze s2"
    using f2 assms(4) by (simp add: view_defs)
  have f3: "activeTab s3 = calorie" "consumedCalories s3 = consumedCalories s"
    "today s3 = today s" "dailyCalorieGoalStr s3 = dailyCalorieGoalStr s"
    "ls_calorieLog (localStorage s3) = ls_calorieLog (localStorage s)" "\<not> cameraActive s3"
    "image_data s3 = Some url" "\<not> mealLogged s3"
    using f2 assms(4)
    by (simp_all add: s3_def fire_def commit_fields commit_calorieLog handleAnalyze_begin_def
        noImage_def)
  have f4: "activeTab s4 = calorie" "consumedCalories s4 = consumedCalories s"
    "today s4 = today s" "dailyCalorieGoalStr s4 = dailyCalorieGoalStr s"
    "ls_calorieLog (localStorage s4) = ls_calorieLog (localStorage s)" "\<not> cameraActive s4"
    "image_data s4 = Some url" "\<not> mealLogged s4" "\<not> isAnalyzing s4"
    "analysis s4 = Some \<lparr>totalCalories = a, summary = []\<rparr>"
    using f3
    by (simp_all add: s4_def fire_def commit_fields commit_calorieLog
        handleAnalyze_resolved_def)
  have e5: "enabled ClickLogMeal s4"
    using f4 assms(4) by (simp add: view_defs)
  have f5: "activeTab s5 = calorie" "consumedCalories s5 = consumedCalories s + a"
    "today s5 = today s" "dailyCalorieGoalStr s5 = dailyCalorieGoalStr s" "\<not> isAnalyzing s5"
    using f4
    by (simp_all add: s5_def fire_def commit_fields handleLogMeal_def)
  have l5: "ls_calorieLog (localStorage s5) =
              (if a \<noteq> 0 then Some (Json (calorieLogRecord (today s) (consumedCalories s + a)))
               else ls_calorieLog (localStorage s))"
    using f4 by (simp add: s5_def fire_def commit_calorieLog handleLogMeal_def)
  have c5: "coherent s5"
  proof (cases "a = 0")
    case True
    then have "loadConsumedCalories (localStorage s5) (today s)
                 = loadConsumedCalories (localStorage s) (today s)"
      using l5 by (intro load_cong) simp
    then show ?thesis using assms(3) f5 True by (simp add: coherent_def)
  next
    case False
    then show ?thesis using l5 f5 by (simp add: coherent_def load_record)
  qed
  have "run rnd (meal url a) s = Some s5"
    using e3 e5 by (simp add: meal_def step_def s1_def s2_def s3_def s4_def s5_def)
  then show ?thesis using f5 c5 l5 by simp
qed

lemma meals_run:
  assumes "activeTab s = calorie" "\<not> isAnalyzing s" "coherent s" "url \<noteq> []"
  shows "\<exists>s'. run rnd (concat (map (meal url) amounts)) s = Some s' \<and> activeTab s' = calorie
           \<and> \<not> isAnalyzing s' \<and> coherent s'
           \<and> consumedCalories s' = consumedCalories s + sum_list amounts
           \<and> today s' = today s \<and> dailyCalorieGoalStr s' = dailyCalorieGoalStr s"
  using assms
proof (induction amounts arbitrary: s)
  case Nil
  then show ?case by simp
next
  case (Cons a amounts)
  from meal_run [OF Cons.prems, of rnd a] obtain s1 where
    s1: "run rnd (meal url a) s = Some s1" "activeTab s1 = calorie" "\<not> isAnalyzing s1"
      "coherent s1" "consumedCalories s1 = consumedCalories s + a" "today s1 = today s"
      "dailyCalorieGoalStr s1 = dailyCalorieGoalStr s"
    by blast
  from Cons.IH [OF s1(2,3,4) Cons.prems(4)] obtain s2 where
    s2: "run rnd (concat (map (meal url) amounts)) s1 = Some s2" "activeTab s2 = calorie"
      "\<not> isAnalyzing s2" "coherent s2"
      "consumedCalories s2 = consumedCalories s1 + sum_list amounts" "today s2 = today s1"
      "dailyCalorieGoalStr s2 = dailyCalorieGoalStr s1"
    by blast
  have "run rnd (concat (map (meal url) (a # amounts))) s = Some s2"
    using s1(1) s2(1) by (simp add: run_append)
  then show ?case using s1 s2 by simp
qed

text \<open>
  C7. Within one day the meals logged add up. From a state on the calorie tab whose stored
  record agrees with the total shown, logging the amounts of a list one meal after the other
  succeeds, and afterwards the total, and what \<open>loadConsumedCalories\<close> reads from storage on
  that day, is the former total plus the sum of the amounts, and the remaining calories are
  the goal minus that. With a total of 0 and the goal 2000, the amounts 600 and 900 give
  1500 and 500 remaining, and 600, 900 and 700 give 2200 and -200.
\<close>

theorem meals_accumulate:
  assumes "activeTab s = calorie" "\<not> isAnalyzing s" "coherent s" "url \<noteq> []"
  shows "\<exists>s'. run rnd (concat (map (meal url) amounts)) s = Some s'
           \<and> consumedCalories s' = consumedCalories s + sum_list amounts
           \<and> loadConsumedCalories (localStorage s') (today s)
               = Val (JNum (consumedCalories s + sum_list amounts))
           \<and> remainingCalories s' = dailyCalorieGoal s - (consumedCalories s + sum_list amounts)"
proof -
  from meals_run [OF assms, of rnd amounts] obtain s' where
    s': "run rnd (concat (map (meal url) amounts)) s = Some s'" "coherent s'"
      "consumedCalories s' = consumedCalories s + sum_list amounts" "today s' = today s"
      "dailyCalorieGoalStr s' = dailyCalorieGoalStr s"
    by blast
  have "loadConsumedCalories (localStorage s') (today s)
          = Val (JNum (consumedCalories s + sum_list amounts))"
    using s'(2,3,4) by (simp add: coherent_def)
  moreover have "remainingCalories s' = dailyCalorieGoal s - (consumedCalories s + sum_list amounts)"
    using s'(3,5) by (simp add: remainingCalories_def dailyCalorieGoal_def)
  ultimately show ?thesis using s'(1,3) by blast
qed

theorem meals_accumulate_witness:
  "(\<exists>s'. run (\<lambda>x. x) (concat (map (meal ''data:image/jpeg;base64,AA'') [600, 900]))
            (firstVisit ''Tue Nov 03 2026'') = Some s'
          \<and> consumedCalories s' = 1500
          \<and> loadConsumedCalories (localStorage s') ''Tue Nov 03 2026'' = Val (JNum 1500)
          \<and> remainingCalories s' = 500)
   \<and> (\<exists>s'. run (\<lambda>x. x) (concat (map (meal ''data:image/jpeg;base64,AA'') [600, 900, 700]))
            (firstVisit ''Tue Nov 03 2026'') = Some s'
          \<and> consumedCalories s' = 2200
          \<and> loadConsumedCalories (localStorage s') ''Tue Nov 03 2026'' = Val (JNum 2200)
          \<and> remainingCalories s' = - 200)"
proof -
  let ?s = "firstVisit ''Tue Nov 03 2026''"
  have a: "activeTab ?s = calorie" "\<not> isAnalyzing ?s" "''data:image/jpeg;base64,AA'' \<noteq> []"
    by (simp_all add: firstVisit_def)
  have f: "consumedCalories ?s = 0" "today ?s = ''Tue Nov 03 2026''"
    by (simp_all add: firstVisit_def)
  note g = dailyCalorieGoal_firstVisit [of "''Tue Nov 03 2026''"]
  note c = coherent_firstVisit [of "''Tue Nov 03 2026''"]
  show ?thesis
    using meals_accumulate [OF a(1,2) c a(3), where rnd = "\<lambda>x. x" and amounts = "[600, 900]"]
      meals_accumulate [OF a(1,2) c a(3), where rnd = "\<lambda>x. x" and amounts = "[600, 900, 700]"]
      f g
    by simp
qed

subsection \<open>What holds in every state of a session\<close>

lemma mount_facts:
  assumes "mount st d = Some s0"
  shows "\<not> mealLogged s0" "\<not> cameraActive s0" "image_data s0 = None"
    "ls_calorieLog (localStorage s0) = Some (Json (calorieLogRecord d (consumedCalories s0)))"
    "today s0 = d" "loadConsumedCalories st d = Val (JNum (consumedCalories s0))"
  using assms
  by (auto simp: mount_def initialState_def commit_defs view_defs
      split: jsval.splits json.splits)

lemma mount_returning:
  "mount (emptyStorage\<lparr>ls_calorieLog := Some (Json (calorieLogRecord d c))\<rparr>) d
     = Some (afterMeal d c)"
  by (simp add: mount_def initialState_def emptyStorage_def loadConsumedCalories_def
      loadConsumedCalories_try_def JSON_parse_def destructure_def calorieLogRecord_def
      commit_defs view_defs initialGoalStr_def initialDarkMode_def String_of_bool_def
      firstVisit_def afterMeal_def)

lemma run_afterMeal:
  "url \<noteq> [] \<Longrightarrow> c \<noteq> 0 \<Longrightarrow>
     run rnd (meal url c @ [ClickReset]) (firstVisit d) = Some (afterMeal d c)"
  by (simp add: meal_def step_def fire_def view_defs handler_defs commit_defs firstVisit_def
      afterMeal_def calorieLogRecord_def)

lemma run_analysed:
  "url \<noteq> [] \<Longrightarrow>
   run rnd [FileLoaded (Some url), ClickAnalyze, AnalysisDone \<lparr>totalCalories = a, summary = []\<rparr>]
     (firstVisit d) = Some (analysed d url a)"
  by (simp add: step_def fire_def view_defs handler_defs commit_defs firstVisit_def
      analysed_def)

lemma step_guarded: "guarded s \<Longrightarrow> step rnd e s = Some s' \<Longrightarrow> guarded s'"
  by (cases e)
    (auto simp: guarded_def step_def fire_def commit_fields noImage_def handler_defs view_defs
      Let_def split: if_splits option.splits prod.splits)

lemma storedCalories_commit:
  "storedCalories (localStorage (commit old new)) =
     (if consumedCalories new \<noteq> consumedCalories old then Val (JNum (consumedCalories new))
      else storedCalories (localStorage new))"
  by (simp add: storedCalories_def commit_calorieLog calorieLogRecord_def)

lemma step_recorded: "recorded s \<Longrightarrow> step rnd e s = Some s' \<Longrightarrow> recorded s'"
  by (cases e)
    (auto simp: recorded_def step_def fire_def commit_fields storedCalories_commit handler_defs
      Let_def split: if_splits option.splits prod.splits)

lemma run_guarded: "guarded s \<Longrightarrow> run rnd es s = Some s' \<Longrightarrow> guarded s'"
  by (induction es arbitrary: s) (auto split: option.splits dest: step_guarded)

lemma run_recorded: "recorded s \<Longrightarrow> run rnd es s = Some s' \<Longrightarrow> recorded s'"
  by (induction es arbitrary: s) (auto split: option.splits dest: step_recorded)

subsection \<open>Logging a meal once\<close>

text \<open>What the guard does give. A handler made by a render that has no analysis, or has the
  meal marked as logged, changes nothing; the render after a call is such a render, so the
  handler of that render changes nothing, and its button is not on the screen any more. And
  in every state that a session reaches, the flag is off after a capture or an upload.\<close>

lemma handleLogMeal_done:
  "analysis render = None \<or> mealLogged render \<Longrightarrow> handleLogMeal render s = s"
  by (auto simp: handleLogMeal_def split: option.splits)

lemma handleLogMeal_marks:
  "analysis (handleLogMeal s s) = None \<or> mealLogged (handleLogMeal s s)"
  by (auto simp: handleLogMeal_def split: option.splits)

lemma fire_logMeal_twice:
  "fire rnd ClickLogMeal (fire rnd ClickLogMeal s) = fire rnd ClickLogMeal s"
proof -
  let ?s1 = "commit s (handleLogMeal s s)"
  have "analysis ?s1 = None \<or> mealLogged ?s1"
    using handleLogMeal_marks [of s] by (simp add: commit_fields)
  then have "handleLogMeal ?s1 ?s1 = ?s1" by (rule handleLogMeal_done)
  then show ?thesis by (simp add: fire_def commit_fixed)
qed

lemma logMeal_button_gone:
  "step rnd ClickLogMeal s = Some s' \<Longrightarrow> step rnd ClickLogMeal s' = None"
  by (auto simp: step_def fire_def commit_fields handleLogMeal_def split: if_splits)

lemma flag_off_after_new_image:
  assumes "mount st d = Some s0" and "run rnd es s0 = Some s"
  shows "step rnd (ClickCapture w h ctx url) s = Some s' \<Longrightarrow> \<not> mealLogged s'"
    and "step rnd (FileLoaded r) s = Some s' \<Longrightarrow> \<not> mealLogged s'"
proof -
  have "guarded s0" using mount_facts(1) [OF assms(1)] by (simp add: guarded_def)
  then have g: "guarded s" using assms(2) by (rule run_guarded)
  show "step rnd (ClickCapture w h ctx url) s = Some s' \<Longrightarrow> \<not> mealLogged s'"
    using g
    by (auto simp: step_def fire_def commit_fields guarded_def view_defs captureImage_def
        stopCamera_def Let_def split: if_splits option.splits prod.splits)
  show "step rnd (FileLoaded r) s = Some s' \<Longrightarrow> \<not> mealLogged s'"
    by (auto simp: step_def fire_def commit_fields fileLoaded_def)
qed

text \<open>
  C3, on the code. The guard of \<open>handleLogMeal\<close> reads the flag that its render has seen,
  not the flag as it is, while the total is updated from the state as it is. So the handler
  of one render, called twice before the next render, passes its guard twice and adds twice:
  for an analysis of 300 calories on a first visit the total goes to 300 and then to 600,
  and 600 is what the effect stores.
\<close>

theorem logMeal_twice_in_one_render:
  "run (\<lambda>x. x) [FileLoaded (Some ''data:,''), ClickAnalyze,
                 AnalysisDone \<lparr>totalCalories = 300, summary = []\<rparr>]
      (firstVisit ''Tue Nov 03 2026'') = Some (analysed ''Tue Nov 03 2026'' ''data:,'' 300)
   \<and> consumedCalories (analysed ''Tue Nov 03 2026'' ''data:,'' 300) = 0
   \<and> consumedCalories
        (handleLogMeal (analysed ''Tue Nov 03 2026'' ''data:,'' 300)
           (analysed ''Tue Nov 03 2026'' ''data:,'' 300)) = 300
   \<and> consumedCalories
        (handleLogMeal (analysed ''Tue Nov 03 2026'' ''data:,'' 300)
           (handleLogMeal (analysed ''Tue Nov 03 2026'' ''data:,'' 300)
              (analysed ''Tue Nov 03 2026'' ''data:,'' 300))) = 600
   \<and> ls_calorieLog (localStorage
        (commit (analysed ''Tue Nov 03 2026'' ''data:,'' 300)
           (handleLogMeal (analysed ''Tue Nov 03 2026'' ''data:,'' 300)
              (handleLogMeal (analysed ''Tue Nov 03 2026'' ''data:,'' 300)
                 (analysed ''Tue Nov 03 2026'' ''data:,'' 300)))))
       = Some (Json (calorieLogRecord ''Tue Nov 03 2026'' 600))"
proof -
  let ?a = "analysed ''Tue Nov 03 2026'' ''data:,'' 300"
  have r: "run (\<lambda>x. x) [FileLoaded (Some ''data:,''), ClickAnalyze,
                 AnalysisDone \<lparr>totalCalories = 300, summary = []\<rparr>]
      (firstVisit ''Tue Nov 03 2026'') = Some ?a"
    by (rule run_analysed) simp
  have 0: "consumedCalories ?a = 0" by (simp add: analysed_def firstVisit_def)
  have 1: "consumedCalories (handleLogMeal ?a ?a) = 300"
    by (simp add: handleLogMeal_def analysed_def firstVisit_def)
  have 2: "consumedCalories (handleLogMeal ?a (handleLogMeal ?a ?a)) = 600"
    by (simp add: handleLogMeal_def analysed_def firstVisit_def)
  have 3: "ls_calorieLog (localStorage (commit ?a (handleLogMeal ?a (handleLogMeal ?a ?a))))
             = Some (Json (calorieLogRecord ''Tue Nov 03 2026'' 600))"
    by (simp add: commit_calorieLog handleLogMeal_def analysed_def firstVisit_def)
  show ?thesis
    by (intro conjI) (rule r 0 1 2 3)+
qed

subsection \<open>Resetting the day\<close>

lemma load_stored_zero:
  "storedCalories st = Val (JNum 0) \<Longrightarrow> loadConsumedCalories st d = Val (JNum 0)"
  by (auto simp: storedCalories_def loadConsumedCalories_def loadConsumedCalories_try_def
      JSON_parse_def destructure_def split: option.splits item.splits json.splits)

lemma reset_coherent:
  assumes "recorded s"
  shows "coherent (fire rnd ClickResetDay s)"
    and "storedCalories (localStorage (fire rnd ClickResetDay s)) = Val (JNum 0)"
    and "consumedCalories (fire rnd ClickResetDay s) = 0"
    and "today (fire rnd ClickResetDay s) = today s"
    and "activeTab (fire rnd ClickResetDay s) = activeTab s"
    and "isAnalyzing (fire rnd ClickResetDay s) = isAnalyzing s"
proof -
  let ?s1 = "fire rnd ClickResetDay s"
  show c: "consumedCalories ?s1 = 0" "today ?s1 = today s" "activeTab ?s1 = activeTab s"
    "isAnalyzing ?s1 = isAnalyzing s"
    by (simp_all add: fire_def commit_fields resetDay_def)
  show l: "storedCalories (localStorage ?s1) = Val (JNum 0)"
    using assms by (simp add: fire_def storedCalories_commit resetDay_def recorded_def)
  show "coherent ?s1"
    using load_stored_zero [OF l] c by (simp add: coherent_def)
qed

text \<open>
  C6. In every state that a session reaches from its first render and that shows the Reset
  Day button, whatever the total is, the button sets the total to 0, the stored record
  holds 0 calories afterwards, and \<open>loadConsumedCalories\<close> reads 0 from storage on that day.
  One meal of 150 calories logged after that makes the total, and what is read from storage,
  150.
\<close>

theorem resetDay_then_log:
  assumes "mount st d0 = Some s0" and "run rnd es s0 = Some s"
    and "startView s" and "\<not> isAnalyzing s" and "url \<noteq> []"
  shows "\<exists>s1 s2. step rnd ClickResetDay s = Some s1
           \<and> consumedCalories s1 = 0
           \<and> storedCalories (localStorage s1) = Val (JNum 0)
           \<and> loadConsumedCalories (localStorage s1) (today s) = Val (JNum 0)
           \<and> run rnd (meal url 150) s1 = Some s2
           \<and> consumedCalories s2 = 150
           \<and> loadConsumedCalories (localStorage s2) (today s) = Val (JNum 150)"
proof -
  let ?s1 = "fire rnd ClickResetDay s"
  have "recorded s0"
    using mount_facts(4) [OF assms(1)]
    by (simp add: recorded_def storedCalories_def calorieLogRecord_def)
  then have "recorded s" using assms(2) by (rule run_recorded)
  note r = reset_coherent [OF this, of rnd]
  have st: "step rnd ClickResetDay s = Some ?s1" using assms(3) by (simp add: step_def)
  have t: "activeTab ?s1 = calorie" "\<not> isAnalyzing ?s1"
    using r(5,6) assms(3,4) by (simp_all add: startView_def)
  from meal_run [OF t r(1) assms(5), of rnd 150] obtain s2 where
    s2: "run rnd (meal url 150) ?s1 = Some s2" "coherent s2"
      "consumedCalories s2 = consumedCalories ?s1 + 150" "today s2 = today ?s1"
    by blast
  have "loadConsumedCalories (localStorage ?s1) (today s) = Val (JNum 0)"
    using r(1,3,4) by (simp add: coherent_def)
  moreover have "loadConsumedCalories (localStorage s2) (today s) = Val (JNum 150)"
    using s2(2,3,4) r(3,4) by (simp add: coherent_def)
  ultimately show ?thesis using st r(2,3) s2(1,3) by auto
qed

theorem resetDay_then_log_witness:
  "mount emptyStorage ''Tue Nov 03 2026'' = Some (firstVisit ''Tue Nov 03 2026'')
   \<and> run (\<lambda>x. x) (meal ''data:,'' 500 @ [ClickReset]) (firstVisit ''Tue Nov 03 2026'')
       = Some (afterMeal ''Tue Nov 03 2026'' 500)
   \<and> startView (afterMeal ''Tue Nov 03 2026'' 500)
   \<and> consumedCalories (afterMeal ''Tue Nov 03 2026'' 500) = 500
   \<and> (\<exists>s1 s2. step (\<lambda>x. x) ClickResetDay (afterMeal ''Tue Nov 03 2026'' 500) = Some s1
           \<and> consumedCalories s1 = 0
           \<and> storedCalories (localStorage s1) = Val (JNum 0)
           \<and> loadConsumedCalories (localStorage s1) ''Tue Nov 03 2026'' = Val (JNum 0)
           \<and> run (\<lambda>x. x) (meal ''data:,'' 150) s1 = Some s2
           \<and> consumedCalories s2 = 150
           \<and> loadConsumedCalories (localStorage s2) ''Tue Nov 03 2026'' = Val (JNum 150))"
proof -
  let ?d = "''Tue Nov 03 2026''"
  let ?s = "afterMeal ?d 500"
  note m = mount_emptyStorage [of ?d]
  have r: "run (\<lambda>x. x) (meal ''data:,'' 500 @ [ClickReset]) (firstVisit ?d) = Some ?s"
    by (rule run_afterMeal) simp_all
  have v: "startView ?s" "\<not> isAnalyzing ?s" "''data:,'' \<noteq> []"
    by (simp_all add: afterMeal_def firstVisit_def view_defs)
  have c: "consumedCalories ?s = 500" "today ?s = ?d"
    by (simp_all add: afterMeal_def firstVisit_def)
  from resetDay_then_log [OF m r v] obtain s1 s2 where
    "step (\<lambda>x. x) ClickResetDay ?s = Some s1" "consumedCalories s1 = 0"
    "storedCalories (localStorage s1) = Val (JNum 0)"
    "loadConsumedCalories (localStorage s1) (today ?s) = Val (JNum 0)"
    "run (\<lambda>x. x) (meal ''data:,'' 150) s1 = Some s2" "consumedCalories s2 = 150"
    "loadConsumedCalories (localStorage s2) (today ?s) = Val (JNum 150)"
    by blast
  then have e: "\<exists>s1 s2. step (\<lambda>x. x) ClickResetDay ?s = Some s1
           \<and> consumedCalories s1 = 0
           \<and> storedCalories (localStorage s1) = Val (JNum 0)
           \<and> loadConsumedCalories (localStorage s1) ?d = Val (JNum 0)
           \<and> run (\<lambda>x. x) (meal ''data:,'' 150) s1 = Some s2
           \<and> consumedCalories s2 = 150
           \<and> loadConsumedCalories (localStorage s2) ?d = Val (JNum 150)"
    unfolding c(2) by blast
  show ?thesis
    by (intro conjI) (rule m r v(1) c(1) e)+
qed

subsection \<open>A session across midnight\<close>

text \<open>A session that starts on a day other than that of the stored record starts from 0,
  and its first meal is stored under the new day with the amount alone.\<close>

lemma stale_total_dropped:
  assumes "ls_calorieLog st = Some (Json (calorieLogRecord d1 t))" and "d1 \<noteq> d2"
    and "url \<noteq> []"
  shows "loadConsumedCalories st d2 = Val (JNum 0)"
    and "\<exists>s0 s'. mount st d2 = Some s0 \<and> consumedCalories s0 = 0
           \<and> run rnd (meal url a) s0 = Some s'
           \<and> ls_calorieLog (localStorage s') = Some (Json (calorieLogRecord d2 a))"
proof -
  show l: "loadConsumedCalories st d2 = Val (JNum 0)"
    using assms(1,2) by (simp add: load_record)
  then obtain s0 where s0: "mount st d2 = Some s0"
    by (auto simp: mount_def initialState_def)
  note f = mount_facts [OF s0]
  have c0: "consumedCalories s0 = 0" using f(6) l by simp
  have t: "activeTab s0 = calorie" "\<not> isAnalyzing s0"
    using s0 by (auto simp: mount_def initialState_def commit_defs view_defs
        split: jsval.splits json.splits)
  have "coherent s0" using f(4,5) by (simp add: coherent_def load_record)
  from meal_run [OF t this assms(3), of rnd a] obtain s' where
    "run rnd (meal url a) s0 = Some s'"
    "ls_calorieLog (localStorage s') =
       (if a \<noteq> 0 then Some (Json (calorieLogRecord (today s0) (consumedCalories s0 + a)))
        else ls_calorieLog (localStorage s0))"
    by blast
  then have "run rnd (meal url a) s0 = Some s'
      \<and> ls_calorieLog (localStorage s') = Some (Json (calorieLogRecord d2 a))"
    using f(4,5) c0 by (cases "a = 0") simp_all
  then show "\<exists>s0 s'. mount st d2 = Some s0 \<and> consumedCalories s0 = 0
           \<and> run rnd (meal url a) s0 = Some s'
           \<and> ls_calorieLog (localStorage s') = Some (Json (calorieLogRecord d2 a))"
    using s0 c0 by blast
qed

text \<open>
  C1, on the code. The stored record is compared with the day only when the session starts.
  A session started on Monday with 500 calories stored under Monday shows 500; when it is
  still open on Tuesday, \<open>loadConsumedCalories\<close> would read 0 from storage, but the session
  goes on from its own total, and a meal of 300 calories logged on Tuesday stores 800 under
  Tuesday, which is what a reload on Tuesday then reads.
\<close>

theorem stale_total_summed_after_midnight:
  "mount (emptyStorage\<lparr>ls_calorieLog := Some (Json (calorieLogRecord ''Mon Nov 02 2026'' 500))\<rparr>)
     ''Mon Nov 02 2026'' = Some (afterMeal ''Mon Nov 02 2026'' 500)
   \<and> consumedCalories (afterMeal ''Mon Nov 02 2026'' 500) = 500
   \<and> loadConsumedCalories (localStorage (afterMeal ''Mon Nov 02 2026'' 500)) ''Tue Nov 03 2026''
       = Val (JNum 0)
   \<and> map_option (\<lambda>s. (consumedCalories s, ls_calorieLog (localStorage s),
                       loadConsumedCalories (localStorage s) ''Tue Nov 03 2026''))
       (run (\<lambda>x. x) (NewDay ''Tue Nov 03 2026'' # meal ''data:,'' 300)
          (afterMeal ''Mon Nov 02 2026'' 500))
       = Some (800, Some (Json (calorieLogRecord ''Tue Nov 03 2026'' 800)), Val (JNum 800))"
proof -
  have 1: "consumedCalories (afterMeal ''Mon Nov 02 2026'' 500) = 500"
    by (simp add: afterMeal_def)
  have 2: "loadConsumedCalories (localStorage (afterMeal ''Mon Nov 02 2026'' 500))
             ''Tue Nov 03 2026'' = Val (JNum 0)"
    by (simp add: afterMeal_def loadConsumedCalories_def loadConsumedCalories_try_def
        JSON_parse_def destructure_def calorieLogRecord_def)
  have 3: "map_option (\<lambda>s. (consumedCalories s, ls_calorieLog (localStorage s),
                       loadConsumedCalories (localStorage s) ''Tue Nov 03 2026''))
       (run (\<lambda>x. x) (NewDay ''Tue Nov 03 2026'' # meal ''data:,'' 300)
          (afterMeal ''Mon Nov 02 2026'' 500))
       = Some (800, Some (Json (calorieLogRecord ''Tue Nov 03 2026'' 800)), Val (JNum 800))"
    by (simp add: meal_def step_def fire_def view_defs handler_defs commit_defs firstVisit_def
        afterMeal_def calorieLogRecord_def loadConsumedCalories_def loadConsumedCalories_try_def
        JSON_parse_def destructure_def)
  show ?thesis
    by (intro conjI) (rule mount_returning 1 2 3)+
qed

text \<open>
  C5, on the code. The remaining calories are computed by plain subtraction and the bar is
  capped at 100, but from the total of the session, which is not the effective total once
  the day has changed. A session started on Monday with 500 calories stored under Monday
  and the goal 2000 is still open on Tuesday: the effective total, which
  \<open>loadConsumedCalories\<close> reads from storage on Tuesday, is 0, so 2000 calories remain and
  nothing of the goal is used; the session shows 1500 remaining and a bar of 25 percent.
\<close>

theorem remainingCalories_after_midnight:
  "mount (emptyStorage\<lparr>ls_calorieLog := Some (Json (calorieLogRecord ''Mon Nov 02 2026'' 500))\<rparr>)
     ''Mon Nov 02 2026'' = Some (afterMeal ''Mon Nov 02 2026'' 500)
   \<and> run (\<lambda>x. x) [NewDay ''Tue Nov 03 2026''] (afterMeal ''Mon Nov 02 2026'' 500)
       = Some ((afterMeal ''Mon Nov 02 2026'' 500)\<lparr>today := ''Tue Nov 03 2026''\<rparr>)
   \<and> loadConsumedCalories
        (localStorage ((afterMeal ''Mon Nov 02 2026'' 500)\<lparr>today := ''Tue Nov 03 2026''\<rparr>))
        ''Tue Nov 03 2026'' = Val (JNum 0)
   \<and> dailyCalorieGoal ((afterMeal ''Mon Nov 02 2026'' 500)\<lparr>today := ''Tue Nov 03 2026''\<rparr>) = 2000
   \<and> remainingCalories ((afterMeal ''Mon Nov 02 2026'' 500)\<lparr>today := ''Tue Nov 03 2026''\<rparr>)
       = 1500
   \<and> progressPercent (\<lambda>x. x) ((afterMeal ''Mon Nov 02 2026'' 500)\<lparr>today := ''Tue Nov 03 2026''\<rparr>)
       = Finite 25"
proof -
  let ?s = "(afterMeal ''Mon Nov 02 2026'' 500)\<lparr>today := ''Tue Nov 03 2026''\<rparr>"
  have 1: "run (\<lambda>x. x) [NewDay ''Tue Nov 03 2026''] (afterMeal ''Mon Nov 02 2026'' 500) = Some ?s"
    by (simp add: step_def fire_def commit_defs view_defs afterMeal_def firstVisit_def)
  have 2: "loadConsumedCalories (localStorage ?s) ''Tue Nov 03 2026'' = Val (JNum 0)"
    by (simp add: afterMeal_def loadConsumedCalories_def loadConsumedCalories_try_def
        JSON_parse_def destructure_def calorieLogRecord_def)
  have 3: "dailyCalorieGoal ?s = 2000"
    by (simp add: dailyCalorieGoal_def goalOfStr_def afterMeal_def firstVisit_def parseInt_2000)
  have 4: "remainingCalories ?s = 1500"
    using 3 by (simp add: remainingCalories_def afterMeal_def)
  have 5: "progressPercent (\<lambda>x. x) ?s = Finite 25"
    using 3 by (simp add: progressPercent_def js_divide_def afterMeal_def)
  show ?thesis
    by (intro conjI) (rule mount_returning 1 2 3 4 5)+
qed

end
